theory Spec2Isabelle
  imports Main "HOL-Library.Word"
begin

unbundle bit_operations_syntax

section \<open>Strings, paths and keys\<close>

text \<open>
  Python \<open>str\<close> values are modelled as \<open>string\<close> (lists of 8-bit characters), local
  paths, bucket names and object keys alike. The path functions follow \<open>posixpath\<close>,
  the flavour of \<open>os.path\<close> whose separator is the forward slash.
\<close>

type_synonym path = string
type_synonym key = string

definition backslash :: char where
  "backslash = CHR 0x5C"

definition slash :: char where
  "slash = CHR ''/''"

text \<open>\<open>s.replace("\\", "/")\<close>: every backslash becomes a forward slash.\<close>

definition replace_backslash :: "string \<Rightarrow> string" where
  "replace_backslash s = map (\<lambda>c. if c = backslash then slash else c) s"

text \<open>\<open>value or "Default"\<close>: the empty string is falsy.\<close>

definition or_default :: "string \<Rightarrow> string" where
  "or_default s = (if s = [] then ''Default'' else s)"

text \<open>\<open>posixpath.join(a, b)\<close> for two arguments.\<close>

definition os_path_join :: "path \<Rightarrow> path \<Rightarrow> path" where
  "os_path_join a b =
     (if b \<noteq> [] \<and> hd b = slash then b
      else if a = [] \<or> last a = slash then a @ b
      else a @ [slash] @ b)"

text \<open>The prefix \<open>f"backup/{computer_folder}/"\<close> of S3Sync.py and Ver4.2.py.\<close>

definition backup_prefix :: "string \<Rightarrow> string" where
  "backup_prefix computer_folder = ''backup/'' @ computer_folder @ ''/''"

text \<open>
  backupjob.py, line 43:
  \<open>s3_key = f"backup/{computer_folder}/{rel_path}".replace("\\", "/")\<close>.
\<close>

definition backupjob_s3_key :: "string \<Rightarrow> path \<Rightarrow> key" where
  "backupjob_s3_key computer_folder rel_path =
     replace_backslash (''backup/'' @ computer_folder @ ''/'' @ rel_path)"

text \<open>
  S3Sync.py, line 196, and Ver4.2.py, line 195:
  \<open>s3_key = os.path.join(prefix, rel_path).replace("\\", "/")\<close>.
\<close>

definition s3_key_of :: "string \<Rightarrow> path \<Rightarrow> key" where
  "s3_key_of prefix rel_path = replace_backslash (os_path_join prefix rel_path)"

text \<open>
  \<open>str.strip()\<close>: leading and trailing whitespace is removed. A character is a code
  point below 256; among these \<open>str.isspace\<close> holds for the ASCII whitespace, the
  separators \<open>0x1C\<close> to \<open>0x1F\<close>, NEL (\<open>0x85\<close>) and the no-break space
  (\<open>0xA0\<close>).
\<close>

definition is_space :: "char \<Rightarrow> bool" where
  "is_space c = (c \<in> set [CHR 0x09, CHR 0x0A, CHR 0x0B, CHR 0x0C, CHR 0x0D,
                            CHR 0x1C, CHR 0x1D, CHR 0x1E, CHR 0x1F, CHR 0x20,
                            CHR 0x85, CHR 0xA0])"

definition strip :: "string \<Rightarrow> string" where
  "strip s = rev (dropWhile is_space (rev (dropWhile is_space s)))"

text \<open>\<open>s.split("/")\<close> and \<open>"/".join(parts)\<close>.\<close>

fun split_sep :: "string \<Rightarrow> string list" where
  "split_sep [] = [[]]"
| "split_sep (c # cs) =
     (if c = slash then [] # split_sep cs
      else (case split_sep cs of x # xs \<Rightarrow> (c # x) # xs | [] \<Rightarrow> [[c]]))"

fun join_sep :: "string list \<Rightarrow> string" where
  "join_sep [] = []"
| "join_sep [x] = x"
| "join_sep (x # y # ys) = x @ [slash] @ join_sep (y # ys)"

text \<open>
  \<open>posixpath.normpath\<close>: one or three and more leading slashes count as one, exactly two
  are kept; empty and \<open>.\<close> components are dropped; \<open>..\<close> pops the component before it
  unless there is none to pop.
\<close>

definition initial_slashes :: "path \<Rightarrow> nat" where
  "initial_slashes p =
     (if take 1 p = [slash]
      then (if take 2 p = [slash, slash] \<and> take 3 p \<noteq> [slash, slash, slash] then 2 else 1)
      else 0)"

definition norm_step :: "nat \<Rightarrow> string \<Rightarrow> string list \<Rightarrow> string list" where
  "norm_step slashes part new_comps =
     (if part = [] \<or> part = ''.'' then new_comps
      else if part \<noteq> ''..'' \<or> (slashes = 0 \<and> new_comps = [])
              \<or> (new_comps \<noteq> [] \<and> last new_comps = ''..'')
      then new_comps @ [part]
      else if new_comps \<noteq> [] then butlast new_comps
      else new_comps)"

definition os_path_normpath :: "path \<Rightarrow> path" where
  "os_path_normpath p =
     (if p = [] then ''.''
      else let slashes = initial_slashes p;
               comps = fold (norm_step slashes) (split_sep p) [];
               q = replicate slashes slash @ join_sep comps
           in if q = [] then ''.'' else q)"

text \<open>\<open>posixpath.abspath\<close>, with the result of \<open>os.getcwd()\<close> as a parameter.\<close>

definition os_path_abspath :: "path \<Rightarrow> path \<Rightarrow> path" where
  "os_path_abspath cwd p =
     os_path_normpath (if take 1 p = [slash] then p else os_path_join cwd p)"

datatype exn = ClientError string string | OtherError string

text \<open>
  \<open>ClientError code msg\<close> is a \<open>botocore.exceptions.ClientError\<close> whose
  \<open>response['Error']['Code']\<close> is \<open>code\<close>; every other exception is an
  \<open>OtherError\<close>. The second component is what \<open>str(e)\<close> prints.
\<close>

fun str_exn :: "exn \<Rightarrow> string" where
  "str_exn (ClientError code msg) = msg"
| "str_exn (OtherError msg) = msg"

fun common_prefix_len :: "'a list \<Rightarrow> 'a list \<Rightarrow> nat" where
  "common_prefix_len (x # xs) (y # ys) = (if x = y then Suc (common_prefix_len xs ys) else 0)"
| "common_prefix_len _ _ = 0"

text \<open>
  \<open>posixpath.relpath(path, start)\<close>: both paths are made absolute and normal, the
  components they share are dropped, and one \<open>..\<close> is emitted for every component of
  \<open>start\<close> that is left. An empty \<open>path\<close> raises \<open>ValueError\<close>.
\<close>

definition os_path_relpath :: "path \<Rightarrow> path \<Rightarrow> path \<Rightarrow> exn + path" where
  "os_path_relpath cwd p start =
     (if p = [] then Inl (OtherError ''no path specified'')
      else let start_list = filter (\<lambda>x. x \<noteq> []) (split_sep (os_path_abspath cwd start));
               path_list = filter (\<lambda>x. x \<noteq> []) (split_sep (os_path_abspath cwd p));
               i = common_prefix_len start_list path_list;
               rel_list = replicate (length start_list - i) ''..'' @ drop i path_list
           in if rel_list = [] then Inr ''.'' else Inr (join_sep rel_list))"

text \<open>\<open>posixpath.dirname\<close> and \<open>posixpath.basename\<close>.\<close>

definition os_path_dirname :: "path \<Rightarrow> path" where
  "os_path_dirname p =
     (let head = rev (dropWhile (\<lambda>c. c \<noteq> slash) (rev p))
      in if head \<noteq> [] \<and> (\<exists>c \<in> set head. c \<noteq> slash)
         then rev (dropWhile (\<lambda>c. c = slash) (rev head)) else head)"

definition os_path_basename :: "path \<Rightarrow> path" where
  "os_path_basename p = rev (takeWhile (\<lambda>c. c \<noteq> slash) (rev p))"

section \<open>The fingerprint\<close>

text \<open>
  File contents are byte strings. \<open>hashlib.md5()\<close> is the MD5 of RFC 1321 as a streaming
  object: it keeps the chaining value, the bytes of the block not yet complete and the
  number of bytes fed so far; \<open>update\<close> compresses every complete 64-byte block and
  \<open>hexdigest\<close> pads what is left.
\<close>

type_synonym byte = "8 word"
type_synonym bytes = "byte list"
type_synonym u32 = "32 word"
type_synonym md5_chain = "u32 \<times> u32 \<times> u32 \<times> u32"

text \<open>The sine table and the rotation amounts of the 64 steps.\<close>

definition md5_K :: "u32 list" where
  "md5_K = [
0xd76aa478, 0xe8c7b756, 0x242070db, 0xc1bdceee,
0xf57c0faf, 0x4787c62a, 0xa8304613, 0xfd469501,
0x698098d8, 0x8b44f7af, 0xffff5bb1, 0x895cd7be,
0x6b901122, 0xfd987193, 0xa679438e, 0x49b40821,
0xf61e2562, 0xc040b340, 0x265e5a51, 0xe9b6c7aa,
0xd62f105d, 0x02441453, 0xd8a1e681, 0xe7d3fbc8,
0x21e1cde6, 0xc33707d6, 0xf4d50d87, 0x455a14ed,
0xa9e3e905, 0xfcefa3f8, 0x676f02d9, 0x8d2a4c8a,
0xfffa3942, 0x8771f681, 0x6d9d6122, 0xfde5380c,
0xa4beea44, 0x4bdecfa9, 0xf6bb4b60, 0xbebfbc70,
0x289b7ec6, 0xeaa127fa, 0xd4ef3085, 0x04881d05,
0xd9d4d039, 0xe6db99e5, 0x1fa27cf8, 0xc4ac5665,
0xf4292244, 0x432aff97, 0xab9423a7, 0xfc93a039,
0x655b59c3, 0x8f0ccc92, 0xffeff47d, 0x85845dd1,
0x6fa87e4f, 0xfe2ce6e0, 0xa3014314, 0x4e0811a1,
0xf7537e82, 0xbd3af235, 0x2ad7d2bb, 0xeb86d391]"

definition md5_S :: "nat list" where
  "md5_S = [7, 12, 17, 22, 7, 12, 17, 22, 7, 12, 17, 22, 7, 12, 17, 22,
            5, 9, 14, 20, 5, 9, 14, 20, 5, 9, 14, 20, 5, 9, 14, 20,
            4, 11, 16, 23, 4, 11, 16, 23, 4, 11, 16, 23, 4, 11, 16, 23,
            6, 10, 15, 21, 6, 10, 15, 21, 6, 10, 15, 21, 6, 10, 15, 21]"

text \<open>A block is read as sixteen little-endian 32-bit words.\<close>

fun le_word :: "bytes \<Rightarrow> u32" where
  "le_word [] = 0"
| "le_word (b # bs) = ucast b + push_bit 8 (le_word bs)"

fun block_words :: "nat \<Rightarrow> bytes \<Rightarrow> u32 list" where
  "block_words 0 bs = []"
| "block_words (Suc n) bs = le_word (take 4 bs) # block_words n (drop 4 bs)"

text \<open>
  Step \<open>i\<close> on the working registers, with the auxiliary function and the message
  word of its round; the compression of one block runs the 64 steps and adds the result to
  the chaining value.
\<close>

definition md5_round :: "u32 list \<Rightarrow> nat \<Rightarrow> md5_chain \<Rightarrow> md5_chain" where
  "md5_round m i st =
     (case st of (a, b, c, d) \<Rightarrow>
        let (f, g) =
              (if i < 16 then ((b AND c) OR (NOT b AND d), i)
               else if i < 32 then ((d AND b) OR (NOT d AND c), (5 * i + 1) mod 16)
               else if i < 48 then (b XOR c XOR d, (3 * i + 5) mod 16)
               else (c XOR (b OR NOT d), (7 * i) mod 16));
            f' = f + a + md5_K ! i + m ! g
        in (d, b + word_rotl (md5_S ! i) f', b, c))"

definition md5_compress :: "md5_chain \<Rightarrow> bytes \<Rightarrow> md5_chain" where
  "md5_compress h block =
     (case h of (a0, b0, c0, d0) \<Rightarrow>
        case fold (md5_round (block_words 16 block)) [0..<64] h of (a, b, c, d) \<Rightarrow>
          (a0 + a, b0 + b, c0 + c, d0 + d))"

text \<open>
  Compress the complete blocks at the front of a byte string; what is shorter than a
  block is returned with the chaining value.
\<close>

function absorb :: "md5_chain \<Rightarrow> bytes \<Rightarrow> md5_chain \<times> bytes" where
  "absorb h bs =
     (if length bs < 64 then (h, bs)
      else absorb (md5_compress h (take 64 bs)) (drop 64 bs))"
  by pat_completeness auto
termination
  by (relation "measure (\<lambda>(h, bs). length bs)") auto

record md5_obj =
  chain :: md5_chain
  pending :: bytes
  count :: nat

text \<open>The object returned by \<open>hashlib.md5()\<close>, and its methods.\<close>

definition hashlib_md5 :: md5_obj where
  "hashlib_md5 =
     \<lparr>chain = (0x67452301, 0xefcdab89, 0x98badcfe, 0x10325476), pending = [], count = 0\<rparr>"

definition md5_update :: "md5_obj \<Rightarrow> bytes \<Rightarrow> md5_obj" where
  "md5_update h data =
     (case absorb (chain h) (pending h @ data) of (c, rest) \<Rightarrow>
        \<lparr>chain = c, pending = rest, count = count h + length data\<rparr>)"

text \<open>
  The padding for a message of \<open>n\<close> bytes: the byte \<open>0x80\<close>, zeros up to 56 modulo
  64, and the length in bits as a little-endian 64-bit word. The digest is the final
  chaining value, little-endian, in lower-case hexadecimal.
\<close>

fun le_bytes :: "nat \<Rightarrow> 'a::len word \<Rightarrow> bytes" where
  "le_bytes 0 v = []"
| "le_bytes (Suc n) v = ucast v # le_bytes n (drop_bit 8 v)"

definition md5_padding :: "nat \<Rightarrow> bytes" where
  "md5_padding n =
     0x80 # replicate ((119 - n mod 64) mod 64) 0 @ le_bytes 8 (8 * of_nat n :: 64 word)"

definition hex_digit :: "nat \<Rightarrow> char" where
  "hex_digit n = ''0123456789abcdef'' ! n"

definition hex_byte :: "byte \<Rightarrow> string" where
  "hex_byte b = [hex_digit (unat b div 16), hex_digit (unat b mod 16)]"

definition md5_hexdigest :: "md5_obj \<Rightarrow> string" where
  "md5_hexdigest h =
     (case fst (absorb (chain h) (pending h @ md5_padding (count h))) of (a, b, c, d) \<Rightarrow>
        concat (map hex_byte (concat (map (\<lambda>w. le_bytes 4 w) [a, b, c, d]))))"

text \<open>
  \<open>compute_md5\<close> (S3Sync.py line 40, backupjob.py line 18, Ver4.2.py line 153), from the
  bytes \<open>open(file_path, "rb")\<close> gives access to: \<open>iter(lambda: f.read(4096), b"")\<close>
  reads up to 4096 bytes at a time and stops at the first empty read; every chunk goes to
  \<open>update\<close>. The second argument of \<open>read_chunks\<close> is what the file object has not
  read yet.
\<close>

function read_chunks :: "md5_obj \<Rightarrow> bytes \<Rightarrow> md5_obj" where
  "read_chunks hash_md5 f =
     (let chunk = take 4096 f
      in if chunk = [] then hash_md5
         else read_chunks (md5_update hash_md5 chunk) (drop 4096 f))"
  by pat_completeness auto
termination
  by (relation "measure (\<lambda>(h, f). length f)") auto

definition compute_md5_bytes :: "bytes \<Rightarrow> string" where
  "compute_md5_bytes content = md5_hexdigest (read_chunks hashlib_md5 content)"

text \<open>The digest of a whole byte string fed in one call: \<open>hashlib.md5(data).hexdigest()\<close>.\<close>

definition md5_oneshot :: "bytes \<Rightarrow> string" where
  "md5_oneshot data = md5_hexdigest (md5_update hashlib_md5 data)"

section \<open>Collaborators and program state\<close>

text \<open>
  Object metadata is a string-to-string dictionary; \<open>d.get(k, None)\<close> is \<open>map_of d k\<close>.
  A page of \<open>list_objects_v2\<close> has a \<open>Contents\<close> entry or none; each listed object
  carries its \<open>Key\<close> and \<open>Size\<close>.
\<close>

type_synonym metadata = "(string \<times> string) list"
type_synonym page = "(key \<times> nat) list option"

text \<open>
  The storage SDK and the operating system are collaborators: each capability is a
  function of the outside world \<open>'w\<close>, and the calls that can change the world return the
  new one. A call that raises returns the exception (\<open>Inl\<close>, or \<open>Some\<close>); a transfer
  also returns the byte counts it passed to its \<open>Callback\<close> before it returned or
  raised. \<open>paginate\<close> gives the page requests in order, a failed request as \<open>Inl\<close>.
\<close>

record 'w env =
  os_walk :: "'w \<Rightarrow> path \<Rightarrow> (path \<times> string list \<times> string list) list"
  os_getcwd :: "'w \<Rightarrow> path"
  os_path_getsize :: "'w \<Rightarrow> path \<Rightarrow> exn + nat"
  open_rb :: "'w \<Rightarrow> path \<Rightarrow> exn + bytes"
  head_object :: "'w \<Rightarrow> string \<Rightarrow> key \<Rightarrow> (exn + metadata) \<times> 'w"
  upload_file :: "'w \<Rightarrow> path \<Rightarrow> string \<Rightarrow> key \<Rightarrow> metadata \<Rightarrow> (nat list \<times> exn option) \<times> 'w"
  paginate :: "'w \<Rightarrow> string \<Rightarrow> string \<Rightarrow> (exn + page) list \<times> 'w"
  os_makedirs :: "'w \<Rightarrow> path \<Rightarrow> exn option \<times> 'w"
  download_file :: "'w \<Rightarrow> string \<Rightarrow> key \<Rightarrow> path \<Rightarrow> (nat list \<times> exn option) \<times> 'w"

text \<open>
  What the program does to its collaborators, in the order it does it: lines written to
  the log widget (\<open>self.log\<close>) or to standard output (\<open>print\<close>), message boxes, and the
  calls with their arguments.
\<close>

datatype event =
    Log string
  | Print string
  | ShowError string string
  | ShowWarning string string
  | ShowInfo string string
  | HeadObject string key
  | UploadFile path string key metadata
  | Paginate string string
  | Makedirs path
  | DownloadFile string key path

text \<open>
  The state a pass works on: the world, the events so far, and the progress counters
  (\<open>self.total_size\<close>, \<open>self.bytes_uploaded\<close>, \<open>self.total_download_size\<close>,
  \<open>self.bytes_downloaded\<close>). The progress bar shows the quotient of a counter and its
  total as a float and is left out.
\<close>

record 'w app =
  world :: 'w
  trace :: "event list"
  total_size :: nat
  bytes_uploaded :: nat
  total_download_size :: nat
  bytes_downloaded :: nat

text \<open>The text of the entry widgets, read with \<open>.get()\<close>.\<close>

record entries =
  backup_dir_entry :: string
  restore_dir_entry :: string
  entry_bucket :: string
  entry_computer_id :: string
  entry_access :: string
  entry_secret :: string

definition emit :: "event \<Rightarrow> 'w app \<Rightarrow> 'w app" where
  "emit e s = s\<lparr>trace := trace s @ [e]\<rparr>"

definition log :: "string \<Rightarrow> 'w app \<Rightarrow> 'w app" where
  "log message s = emit (Log message) s"

definition print :: "string \<Rightarrow> 'w app \<Rightarrow> 'w app" where
  "print message s = emit (Print message) s"

text \<open>
  A \<open>for\<close> loop whose body may raise: \<open>Some e\<close> is an exception that leaves the loop,
  with the state reached when it was raised.
\<close>

fun for_each :: "('a \<Rightarrow> 's \<Rightarrow> exn option \<times> 's) \<Rightarrow> 'a list \<Rightarrow> 's \<Rightarrow> exn option \<times> 's" where
  "for_each body [] s = (None, s)"
| "for_each body (x # xs) s =
     (case body x s of
        (Some e, s') \<Rightarrow> (Some e, s')
      | (None, s') \<Rightarrow> for_each body xs s')"

text \<open>How a \<open>try\<close> block inside a loop body ends when it does not raise.\<close>

datatype flow = Continue | Fallthrough

definition compute_md5 :: "'w env \<Rightarrow> 'w \<Rightarrow> path \<Rightarrow> exn + string" where
  "compute_md5 env w file_path =
     (case open_rb env w file_path of
        Inl e \<Rightarrow> Inl e
      | Inr content \<Rightarrow> Inr (compute_md5_bytes content))"

text \<open>
  \<open>get_s3_client\<close> of \<open>BackupFrame\<close> (S3Sync.py line 155) and of \<open>S3BackupApp\<close>:
  \<open>True\<close> stands for the client, \<open>False\<close> for \<open>None\<close>.
\<close>

definition get_s3_client :: "entries \<Rightarrow> 'w app \<Rightarrow> bool \<times> 'w app" where
  "get_s3_client en s =
     (if strip (entry_access en) = [] \<or> strip (entry_secret en) = []
      then (False, emit (ShowError ''Error'' ''Please provide AWS credentials.'') s)
      else (True, s))"

text \<open>
  The walk that opens every upload pass (S3Sync.py lines 177-184, backupjob.py lines
  32-39): the total size and the list of (full path, relative path) pairs.
\<close>

fun gather_files ::
  "'w env \<Rightarrow> 'w \<Rightarrow> path \<Rightarrow> path \<Rightarrow> string list \<Rightarrow> nat \<times> (path \<times> path) list
     \<Rightarrow> exn + nat \<times> (path \<times> path) list" where
  "gather_files env w local_dir root [] acc = Inr acc"
| "gather_files env w local_dir root (file # files) (tsize, file_list) =
     (let full_path = os_path_join root file
      in case os_path_getsize env w full_path of
           Inl e \<Rightarrow> Inl e
         | Inr n \<Rightarrow>
             (case os_path_relpath (os_getcwd env w) full_path local_dir of
                Inl e \<Rightarrow> Inl e
              | Inr rel_path \<Rightarrow>
                  gather_files env w local_dir root files
                    (tsize + n, file_list @ [(full_path, rel_path)])))"

fun gather_walk ::
  "'w env \<Rightarrow> 'w \<Rightarrow> path \<Rightarrow> (path \<times> string list \<times> string list) list
     \<Rightarrow> nat \<times> (path \<times> path) list \<Rightarrow> exn + nat \<times> (path \<times> path) list" where
  "gather_walk env w local_dir [] acc = Inr acc"
| "gather_walk env w local_dir ((root, dirs, files) # rest) acc =
     (case gather_files env w local_dir root files acc of
        Inl e \<Rightarrow> Inl e
      | Inr acc' \<Rightarrow> gather_walk env w local_dir rest acc')"

section \<open>The upload pass\<close>

text \<open>
  The first \<open>try\<close> body of the loop in S3Sync.py (lines 200-206) and in Ver4.2.py (lines
  200-207): fetch the metadata, compare the stored fingerprint with the local one and,
  when they are equal, log, advance the counter by the size of the file and go to the
  next file. \<open>Inl e\<close> is an exception raised inside the body. (Ver4.2.py then calls
  \<open>progress_callback(0)\<close>, which adds nothing to the counter.)
\<close>

definition check_remote ::
  "'w env \<Rightarrow> string \<Rightarrow> key \<Rightarrow> path \<Rightarrow> string \<Rightarrow> 'w app \<Rightarrow> (exn + flow) \<times> 'w app" where
  "check_remote env bucket s3_key full_path local_md5 s =
     (case head_object env (world s) bucket s3_key of
        (response, w1) \<Rightarrow>
          let s1 = emit (HeadObject bucket s3_key) (s\<lparr>world := w1\<rparr>)
          in case response of
               Inl e \<Rightarrow> (Inl e, s1)
             | Inr md \<Rightarrow>
                 if map_of md ''file_md5'' = Some local_md5
                 then let s2 = log (''Skipping '' @ full_path @ '' (no changes)'') s1
                      in case os_path_getsize env (world s2) full_path of
                           Inl e \<Rightarrow> (Inl e, s2)
                         | Inr n \<Rightarrow>
                             (Inr Continue, s2\<lparr>bytes_uploaded := bytes_uploaded s2 + n\<rparr>)
                 else (Inr Fallthrough, s1))"

text \<open>
  The second \<open>try\<close> statement (S3Sync.py lines 210-220, Ver4.2.py lines 214-224): the
  upload with the fingerprint as metadata; \<open>progress_callback\<close> adds every reported
  amount to the counter; success and failure are both logged.
\<close>

definition upload ::
  "'w env \<Rightarrow> string \<Rightarrow> key \<Rightarrow> path \<Rightarrow> string \<Rightarrow> 'w app \<Rightarrow> 'w app" where
  "upload env bucket s3_key full_path local_md5 s =
     (case upload_file env (world s) full_path bucket s3_key [(''file_md5'', local_md5)] of
        ((amounts, err), w1) \<Rightarrow>
          let s1 = emit (UploadFile full_path bucket s3_key [(''file_md5'', local_md5)])
                     (s\<lparr>world := w1, bytes_uploaded := bytes_uploaded s + sum_list amounts\<rparr>)
          in case err of
               None \<Rightarrow>
                 log (''Uploaded '' @ full_path @ '' to s3://'' @ bucket @ ''/'' @ s3_key) s1
             | Some e \<Rightarrow>
                 log (''Error uploading '' @ full_path @ '': '' @ str_exn e) s1)"

text \<open>
  The loop body of \<open>BackupFrame.backup_directory\<close> (S3Sync.py lines 195-220). The
  fingerprint is computed outside every \<open>try\<close>. \<open>except Exception: pass\<close> sends every
  exception of the first \<open>try\<close> body on to the upload.
\<close>

definition S3Sync_backup_file ::
  "'w env \<Rightarrow> string \<Rightarrow> string \<Rightarrow> path \<times> path \<Rightarrow> 'w app \<Rightarrow> exn option \<times> 'w app" where
  "S3Sync_backup_file env bucket prefix file s =
     (case file of (full_path, rel_path) \<Rightarrow>
        let s3_key = s3_key_of prefix rel_path
        in case compute_md5 env (world s) full_path of
             Inl e \<Rightarrow> (Some e, s)
           | Inr local_md5 \<Rightarrow>
               (case check_remote env bucket s3_key full_path local_md5 s of
                  (Inr Continue, s1) \<Rightarrow> (None, s1)
                | (Inr Fallthrough, s1) \<Rightarrow>
                    (None, upload env bucket s3_key full_path local_md5 s1)
                | (Inl e, s1) \<Rightarrow>
                    (None, upload env bucket s3_key full_path local_md5 s1)))"

text \<open>
  The loop body of \<open>S3BackupApp.backup_directory\<close> (Ver4.2.py lines 194-224):
  \<open>except ClientError\<close> logs and skips the file unless the code is 404; an exception of
  any other class is not caught.
\<close>

definition Ver42_backup_file ::
  "'w env \<Rightarrow> string \<Rightarrow> string \<Rightarrow> path \<times> path \<Rightarrow> 'w app \<Rightarrow> exn option \<times> 'w app" where
  "Ver42_backup_file env bucket prefix file s =
     (case file of (full_path, rel_path) \<Rightarrow>
        let s3_key = s3_key_of prefix rel_path
        in case compute_md5 env (world s) full_path of
             Inl e \<Rightarrow> (Some e, s)
           | Inr local_md5 \<Rightarrow>
               (case check_remote env bucket s3_key full_path local_md5 s of
                  (Inr Continue, s1) \<Rightarrow> (None, s1)
                | (Inr Fallthrough, s1) \<Rightarrow>
                    (None, upload env bucket s3_key full_path local_md5 s1)
                | (Inl (ClientError code msg), s1) \<Rightarrow>
                    if code \<noteq> ''404''
                    then (None, log (''Error checking '' @ s3_key @ '': '' @ msg) s1)
                    else (None, upload env bucket s3_key full_path local_md5 s1)
                | (Inl (OtherError msg), s1) \<Rightarrow> (Some (OtherError msg), s1)))"

text \<open>
  The opening of \<open>backup_directory\<close> in S3Sync.py (lines 164-189) and Ver4.2.py (lines
  161-186), shared by the two: read the entries, refuse empty fields, build the client,
  walk the directory, reset the counters; then the loop over the files.
\<close>

definition gui_backup_directory ::
  "(string \<Rightarrow> string \<Rightarrow> path \<times> path \<Rightarrow> 'w app \<Rightarrow> exn option \<times> 'w app)
     \<Rightarrow> 'w env \<Rightarrow> entries \<Rightarrow> 'w app \<Rightarrow> exn option \<times> 'w app" where
  "gui_backup_directory body env en s =
     (let local_dir = backup_dir_entry en;
          bucket = strip (entry_bucket en);
          computer_folder = or_default (strip (entry_computer_id en));
          prefix = backup_prefix computer_folder
      in if local_dir = [] \<or> bucket = []
         then (None, emit (ShowError ''Error''
                 ''Please select a backup directory and enter a bucket name.'') s)
         else case get_s3_client en s of
                (False, s1) \<Rightarrow> (None, s1)
              | (True, s1) \<Rightarrow>
                  (case gather_walk env (world s1) local_dir
                          (os_walk env (world s1) local_dir) (0, []) of
                     Inl e \<Rightarrow> (Some e, s1)
                   | Inr (tsize, file_list) \<Rightarrow>
                       for_each (body bucket prefix) file_list
                         (s1\<lparr>total_size := tsize, bytes_uploaded := 0\<rparr>)))"

definition S3Sync_backup_directory ::
  "'w env \<Rightarrow> entries \<Rightarrow> 'w app \<Rightarrow> exn option \<times> 'w app" where
  "S3Sync_backup_directory env en s = gui_backup_directory (S3Sync_backup_file env) env en s"

definition Ver42_backup_directory ::
  "'w env \<Rightarrow> entries \<Rightarrow> 'w app \<Rightarrow> exn option \<times> 'w app" where
  "Ver42_backup_directory env en s = gui_backup_directory (Ver42_backup_file env) env en s"

text \<open>
  backupjob.py. The inner \<open>try\<close> body (lines 49-53) fetches and compares; it keeps no
  progress counter. The upload (lines 61-67) passes no \<open>Callback\<close>.
\<close>

definition backupjob_check ::
  "'w env \<Rightarrow> string \<Rightarrow> key \<Rightarrow> path \<Rightarrow> string \<Rightarrow> 'w app \<Rightarrow> (exn + flow) \<times> 'w app" where
  "backupjob_check env bucket s3_key full_path local_md5 s =
     (case head_object env (world s) bucket s3_key of
        (response, w1) \<Rightarrow>
          let s1 = emit (HeadObject bucket s3_key) (s\<lparr>world := w1\<rparr>)
          in case response of
               Inl e \<Rightarrow> (Inl e, s1)
             | Inr md \<Rightarrow>
                 if map_of md ''file_md5'' = Some local_md5
                 then (Inr Continue, print (''Skipping '' @ full_path @ '' (no changes)'') s1)
                 else (Inr Fallthrough, s1))"

definition backupjob_upload ::
  "'w env \<Rightarrow> string \<Rightarrow> key \<Rightarrow> path \<Rightarrow> string \<Rightarrow> 'w app \<Rightarrow> 'w app" where
  "backupjob_upload env bucket s3_key full_path local_md5 s =
     (case upload_file env (world s) full_path bucket s3_key [(''file_md5'', local_md5)] of
        ((amounts, err), w1) \<Rightarrow>
          let s1 = emit (UploadFile full_path bucket s3_key [(''file_md5'', local_md5)])
                     (s\<lparr>world := w1\<rparr>)
          in case err of
               None \<Rightarrow>
                 print (''Uploaded '' @ full_path @ '' to s3://'' @ bucket @ ''/'' @ s3_key) s1
             | Some e \<Rightarrow>
                 print (''Error uploading '' @ full_path @ '': '' @ str_exn e) s1)"

text \<open>
  The loop body of \<open>backup_directory\<close> in backupjob.py (lines 42-69). The inner
  \<open>except ClientError\<close> skips the file unless the code is 404; the outer
  \<open>except Exception\<close> catches whatever else the body raises after the fingerprint.
\<close>

definition backupjob_backup_file ::
  "'w env \<Rightarrow> string \<Rightarrow> string \<Rightarrow> path \<times> path \<Rightarrow> 'w app \<Rightarrow> exn option \<times> 'w app" where
  "backupjob_backup_file env bucket computer_folder file s =
     (case file of (full_path, rel_path) \<Rightarrow>
        let s3_key = backupjob_s3_key computer_folder rel_path
        in case compute_md5 env (world s) full_path of
             Inl e \<Rightarrow> (Some e, s)
           | Inr local_md5 \<Rightarrow>
               (case backupjob_check env bucket s3_key full_path local_md5 s of
                  (Inr Continue, s1) \<Rightarrow> (None, s1)
                | (Inr Fallthrough, s1) \<Rightarrow>
                    (None, backupjob_upload env bucket s3_key full_path local_md5 s1)
                | (Inl (ClientError code msg), s1) \<Rightarrow>
                    if code \<noteq> ''404''
                    then (None, print (''Error checking '' @ s3_key @ '': '' @ msg) s1)
                    else (None, backupjob_upload env bucket s3_key full_path local_md5 s1)
                | (Inl (OtherError msg), s1) \<Rightarrow>
                    (None, print (''Error uploading '' @ full_path @ '': '' @ msg) s1)))"

definition backupjob_backup_directory ::
  "'w env \<Rightarrow> path \<Rightarrow> string \<Rightarrow> string \<Rightarrow> 'w app \<Rightarrow> exn option \<times> 'w app" where
  "backupjob_backup_directory env local_dir bucket computer_folder s =
     (case gather_walk env (world s) local_dir (os_walk env (world s) local_dir) (0, []) of
        Inl e \<Rightarrow> (Some e, s)
      | Inr (tsize, file_list) \<Rightarrow>
          for_each (backupjob_backup_file env bucket computer_folder) file_list
            (s\<lparr>bytes_uploaded := 0\<rparr>))"

section \<open>The restore pass\<close>

text \<open>
  Draining the paginator (S3Sync.py lines 241-245, Ver4.2.py lines 245-249): pages
  without \<open>Contents\<close> are passed over; a failed page request raises out of the loop.
\<close>

fun drain_pages ::
  "(exn + page) list \<Rightarrow> nat \<times> (key \<times> nat) list \<Rightarrow> exn + nat \<times> (key \<times> nat) list" where
  "drain_pages [] acc = Inr acc"
| "drain_pages (Inl e # pages) acc = Inl e"
| "drain_pages (Inr None # pages) acc = drain_pages pages acc"
| "drain_pages (Inr (Some contents) # pages) (total_download, object_list) =
     drain_pages pages
       (total_download + sum_list (map snd contents), object_list @ contents)"

text \<open>
  The loop body of \<open>restore_backup\<close> (S3Sync.py lines 259-273, Ver4.2.py lines 264-278).
  The path computation and \<open>os.makedirs\<close> stand outside the \<open>try\<close>; the download is
  inside it.
\<close>

definition restore_object ::
  "'w env \<Rightarrow> string \<Rightarrow> string \<Rightarrow> path \<Rightarrow> key \<times> nat \<Rightarrow> 'w app \<Rightarrow> exn option \<times> 'w app" where
  "restore_object env bucket prefix restore_dir obj s =
     (case obj of (s3_key, sz) \<Rightarrow>
        case os_path_relpath (os_getcwd env (world s)) s3_key prefix of
          Inl e \<Rightarrow> (Some e, s)
        | Inr rel_path \<Rightarrow>
            let local_path = os_path_join restore_dir rel_path
            in case os_makedirs env (world s) (os_path_dirname local_path) of
                 (r, w1) \<Rightarrow>
                   let s1 = emit (Makedirs (os_path_dirname local_path)) (s\<lparr>world := w1\<rparr>)
                   in case r of
                        Some e \<Rightarrow> (Some e, s1)
                      | None \<Rightarrow>
                          (case download_file env (world s1) bucket s3_key local_path of
                             ((amounts, err), w2) \<Rightarrow>
                               let s2 = emit (DownloadFile bucket s3_key local_path)
                                          (s1\<lparr>world := w2,
                                              bytes_downloaded :=
                                                bytes_downloaded s1 + sum_list amounts\<rparr>)
                               in case err of
                                    None \<Rightarrow>
                                      (None, log (''Downloaded '' @ s3_key @ '' to '' @ local_path) s2)
                                  | Some e \<Rightarrow>
                                      (None, log (''Error downloading '' @ s3_key @ '': ''
                                                    @ str_exn e) s2)))"

text \<open>
  \<open>restore_backup\<close>. In S3Sync.py (lines 222-273) the listing is guarded by
  \<open>except Exception\<close>; in Ver4.2.py (lines 226-278) by \<open>except ClientError\<close>, so that
  an exception of another class leaves the function. \<open>catches\<close> says which
  exceptions the guard takes.
\<close>

definition gui_restore_backup ::
  "(exn \<Rightarrow> bool) \<Rightarrow> 'w env \<Rightarrow> entries \<Rightarrow> 'w app \<Rightarrow> exn option \<times> 'w app" where
  "gui_restore_backup catches env en s =
     (let bucket = strip (entry_bucket en);
          restore_dir = restore_dir_entry en;
          computer_folder = or_default (strip (entry_computer_id en));
          prefix = backup_prefix computer_folder
      in if bucket = [] \<or> restore_dir = []
         then (None, emit (ShowError ''Error''
                 ''Please enter bucket name and select restore directory.'') s)
         else case get_s3_client en s of
                (False, s1) \<Rightarrow> (None, s1)
              | (True, s1) \<Rightarrow>
                  (case paginate env (world s1) bucket prefix of
                     (pages, w1) \<Rightarrow>
                       let s2 = emit (Paginate bucket prefix) (s1\<lparr>world := w1\<rparr>)
                       in case drain_pages pages (0, []) of
                            Inl e \<Rightarrow>
                              if catches e
                              then (None, log (''Error listing objects: '' @ str_exn e) s2)
                              else (Some e, s2)
                          | Inr (total_download, object_list) \<Rightarrow>
                              for_each (restore_object env bucket prefix restore_dir) object_list
                                (s2\<lparr>total_download_size := total_download,
                                    bytes_downloaded := 0\<rparr>)))"

fun is_ClientError :: "exn \<Rightarrow> bool" where
  "is_ClientError (ClientError code msg) = True"
| "is_ClientError (OtherError msg) = False"

definition S3Sync_restore_backup ::
  "'w env \<Rightarrow> entries \<Rightarrow> 'w app \<Rightarrow> exn option \<times> 'w app" where
  "S3Sync_restore_backup env en s = gui_restore_backup (\<lambda>e. True) env en s"

definition Ver42_restore_backup ::
  "'w env \<Rightarrow> entries \<Rightarrow> 'w app \<Rightarrow> exn option \<times> 'w app" where
  "Ver42_restore_backup env en s = gui_restore_backup is_ClientError env en s"

text \<open>
  \<open>run_restore\<close> (S3Sync.py lines 291-299, Ver4.2.py lines 296-304) is what the worker
  thread runs: it brackets the pass with log lines and reports an exception that left the
  pass.
\<close>

definition run_restore ::
  "('w app \<Rightarrow> exn option \<times> 'w app) \<Rightarrow> 'w app \<Rightarrow> 'w app" where
  "run_restore restore_backup s =
     (case restore_backup (log ''Starting restore...'' s) of
        (None, s1) \<Rightarrow>
          emit (ShowInfo ''Restore'' ''Restore completed successfully!'')
            (log ''Restore completed successfully!'' s1)
      | (Some e, s1) \<Rightarrow>
          emit (ShowError ''Restore Error'' (str_exn e))
            (log (''Restore error: '' @ str_exn e) s1))"

section \<open>The selective restore\<close>

text \<open>
  \<open>BrowseRestoreFrame\<close> (S3Sync.py). \<open>self.running\<close> is shared with the presentation
  thread, which clears it in \<open>start_restore_thread\<close> when the button is pressed during a
  restore: it is a field of the world, so that a call into a collaborator may return
  with the flag changed. A selected row of the tree carries the values
  (Name, Size, Last Modified, S3 Key).
\<close>

record shared =
  running :: bool

type_synonym tree_item = "string \<times> nat \<times> string \<times> key"

definition set_running :: "bool \<Rightarrow> ('a shared_scheme) app \<Rightarrow> ('a shared_scheme) app" where
  "set_running b s = s\<lparr>world := (world s)\<lparr>running := b\<rparr>\<rparr>"

definition browse_get_s3_client :: "entries \<Rightarrow> 'w app \<Rightarrow> bool \<times> 'w app" where
  "browse_get_s3_client en s =
     (if strip (entry_access en) = [] \<or> strip (entry_secret en) = []
      then (False, emit (ShowError ''Error'' ''AWS credentials required'') s)
      else (True, s))"

text \<open>One selected item, after the flag was found set (S3Sync.py lines 706-715).\<close>

definition restore_item ::
  "'w env \<Rightarrow> entries \<Rightarrow> string \<Rightarrow> path \<Rightarrow> tree_item \<Rightarrow> 'w app \<Rightarrow> exn option \<times> 'w app" where
  "restore_item env en bucket restore_dir item s =
     (case item of (name, sz, modified, s3_key) \<Rightarrow>
        case os_path_relpath (os_getcwd env (world s)) s3_key
               (''backup/'' @ or_default (strip (entry_computer_id en))) of
          Inl e \<Rightarrow> (Some e, s)
        | Inr rel_path \<Rightarrow>
            let local_path = os_path_join restore_dir rel_path
            in case os_makedirs env (world s) (os_path_dirname local_path) of
                 (r, w1) \<Rightarrow>
                   let s1 = emit (Makedirs (os_path_dirname local_path)) (s\<lparr>world := w1\<rparr>)
                   in case r of
                        Some e \<Rightarrow> (Some e, s1)
                      | None \<Rightarrow>
                          (case download_file env (world s1) bucket s3_key local_path of
                             ((amounts, err), w2) \<Rightarrow>
                               let s2 = emit (DownloadFile bucket s3_key local_path)
                                          (s1\<lparr>world := w2,
                                              bytes_downloaded :=
                                                bytes_downloaded s1 + sum_list amounts\<rparr>)
                               in case err of
                                    None \<Rightarrow>
                                      (None, log (''Successfully restored: ''
                                                    @ os_path_basename local_path) s2)
                                  | Some e \<Rightarrow>
                                      (None, log (''Failed to restore '' @ s3_key @ '': ''
                                                    @ str_exn e) s2)))"

text \<open>The loop over the selection (lines 703-715): the flag is read first, and a
  cleared flag leaves the loop.\<close>

fun restore_items ::
  "('a shared_scheme) env \<Rightarrow> entries \<Rightarrow> string \<Rightarrow> path \<Rightarrow> tree_item list
     \<Rightarrow> ('a shared_scheme) app \<Rightarrow> exn option \<times> ('a shared_scheme) app" where
  "restore_items env en bucket restore_dir [] s = (None, s)"
| "restore_items env en bucket restore_dir (item # items) s =
     (if \<not> running (world s) then (None, s)
      else case restore_item env en bucket restore_dir item s of
             (Some e, s') \<Rightarrow> (Some e, s')
           | (None, s') \<Rightarrow> restore_items env en bucket restore_dir items s')"

text \<open>The \<open>try\<close> body of \<open>restore_selected_files\<close> (lines 679-720).\<close>

definition restore_selected_body ::
  "('a shared_scheme) env \<Rightarrow> entries \<Rightarrow> tree_item list \<Rightarrow> string
     \<Rightarrow> ('a shared_scheme) app \<Rightarrow> exn option \<times> ('a shared_scheme) app" where
  "restore_selected_body env en selected_items browse_restore_dir s =
     (if selected_items = []
      then (None, emit (ShowWarning ''Warning'' ''No files selected for restore'') s)
      else let restore_dir = strip browse_restore_dir
           in if restore_dir = []
              then (None, emit (ShowError ''Error'' ''Please select a restore directory'') s)
              else case browse_get_s3_client en s of
                     (False, s1) \<Rightarrow> (None, s1)
                   | (True, s1) \<Rightarrow>
                       (case restore_items env en (strip (entry_bucket en)) restore_dir
                               selected_items (s1\<lparr>bytes_downloaded := 0\<rparr>) of
                          (Some e, s2) \<Rightarrow> (Some e, s2)
                        | (None, s2) \<Rightarrow>
                            (None, set_running False
                               (if running (world s2)
                                then emit (ShowInfo ''Restore Complete''
                                             ''Selected files restoration completed'') s2
                                else s2))))"

text \<open>\<open>restore_selected_files\<close> with its \<open>except Exception\<close> and \<open>finally\<close> clauses.\<close>

definition restore_selected_files ::
  "('a shared_scheme) env \<Rightarrow> entries \<Rightarrow> tree_item list \<Rightarrow> string
     \<Rightarrow> ('a shared_scheme) app \<Rightarrow> ('a shared_scheme) app" where
  "restore_selected_files env en selected_items browse_restore_dir s =
     (case restore_selected_body env en selected_items browse_restore_dir s of
        (None, s1) \<Rightarrow> set_running False s1
      | (Some e, s1) \<Rightarrow>
          set_running False
            (emit (ShowError ''Error'' (''Restore failed: '' @ str_exn e))
               (log (''Restore error: '' @ str_exn e) s1)))"

section \<open>An in-memory environment\<close>

text \<open>
  A world small enough to run the passes on: a local file table, a bucket, the answer
  \<open>os.walk\<close> and the paginator give, and tables of injected failures. A transfer of a
  key listed in \<open>pressed_during\<close> returns with \<open>running\<close> cleared, as when the button
  is pressed while the worker is inside \<open>download_file\<close>.
\<close>

record mem = shared +
  files :: "(path \<times> bytes) list"
  dirs :: "path list"
  objects :: "(key \<times> bytes \<times> metadata) list"
  walk_result :: "(path \<times> string list \<times> string list) list"
  listing :: "(exn + page) list"
  head_faults :: "(key \<times> exn) list"
  upload_faults :: "(key \<times> exn) list"
  download_faults :: "(key \<times> exn) list"
  pressed_during :: "key list"

definition no_such_file :: exn where
  "no_such_file = OtherError ''No such file or directory''"

definition not_found :: exn where
  "not_found = ClientError ''404'' ''Not Found''"

definition mem_getsize :: "mem \<Rightarrow> path \<Rightarrow> exn + nat" where
  "mem_getsize w p =
     (case map_of (files w) p of None \<Rightarrow> Inl no_such_file | Some c \<Rightarrow> Inr (length c))"

definition mem_open_rb :: "mem \<Rightarrow> path \<Rightarrow> exn + bytes" where
  "mem_open_rb w p =
     (case map_of (files w) p of None \<Rightarrow> Inl no_such_file | Some c \<Rightarrow> Inr c)"

definition mem_head_object :: "mem \<Rightarrow> string \<Rightarrow> key \<Rightarrow> (exn + metadata) \<times> mem" where
  "mem_head_object w bucket k =
     (case map_of (head_faults w) k of
        Some e \<Rightarrow> (Inl e, w)
      | None \<Rightarrow>
          (case map_of (objects w) k of
             None \<Rightarrow> (Inl not_found, w)
           | Some (c, md) \<Rightarrow> (Inr md, w)))"

definition mem_upload_file ::
  "mem \<Rightarrow> path \<Rightarrow> string \<Rightarrow> key \<Rightarrow> metadata \<Rightarrow> (nat list \<times> exn option) \<times> mem" where
  "mem_upload_file w p bucket k md =
     (case map_of (upload_faults w) k of
        Some e \<Rightarrow> (([], Some e), w)
      | None \<Rightarrow>
          (case map_of (files w) p of
             None \<Rightarrow> (([], Some no_such_file), w)
           | Some c \<Rightarrow> (([length c], None), w\<lparr>objects := (k, c, md) # objects w\<rparr>)))"

definition mem_makedirs :: "mem \<Rightarrow> path \<Rightarrow> exn option \<times> mem" where
  "mem_makedirs w d =
     (if d \<in> set (map fst (files w)) then (Some (OtherError ''File exists''), w)
      else (None, w\<lparr>dirs := d # dirs w\<rparr>))"

definition mem_download_file ::
  "mem \<Rightarrow> string \<Rightarrow> key \<Rightarrow> path \<Rightarrow> (nat list \<times> exn option) \<times> mem" where
  "mem_download_file w bucket k p =
     (let w' = (if k \<in> set (pressed_during w) then w\<lparr>running := False\<rparr> else w)
      in case map_of (download_faults w) k of
           Some e \<Rightarrow> (([], Some e), w')
         | None \<Rightarrow>
             (case map_of (objects w) k of
                None \<Rightarrow> (([], Some not_found), w')
              | Some (c, md) \<Rightarrow> (([length c], None), w'\<lparr>files := (p, c) # files w'\<rparr>)))"

definition mem_env :: "mem env" where
  "mem_env =
     \<lparr>os_walk = (\<lambda>w d. walk_result w),
      os_getcwd = (\<lambda>w. ''/home/user''),
      os_path_getsize = mem_getsize,
      open_rb = mem_open_rb,
      head_object = mem_head_object,
      upload_file = mem_upload_file,
      paginate = (\<lambda>w bucket prefix. (listing w, w)),
      os_makedirs = mem_makedirs,
      download_file = mem_download_file\<rparr>"

definition mem0 :: mem where
  "mem0 = \<lparr>running = True, files = [], dirs = [], objects = [], walk_result = [],
           listing = [], head_faults = [], upload_faults = [], download_faults = [],
           pressed_during = []\<rparr>"

definition app0 :: "'w \<Rightarrow> 'w app" where
  "app0 w = \<lparr>world = w, trace = [], total_size = 0, bytes_uploaded = 0,
            total_download_size = 0, bytes_downloaded = 0\<rparr>"

definition entries0 :: entries where
  "entries0 = \<lparr>backup_dir_entry = ''/data'', restore_dir_entry = ''/out'',
               entry_bucket = ''bucket'', entry_computer_id = [],
               entry_access = ''AK'', entry_secret = ''SK''\<rparr>"

section \<open>Reading a trace\<close>

text \<open>The transfer and directory calls among the events of a trace.\<close>

fun is_upload :: "event \<Rightarrow> bool" where
  "is_upload (UploadFile full_path bucket k md) = True"
| "is_upload e = False"

fun is_download :: "event \<Rightarrow> bool" where
  "is_download (DownloadFile bucket k local_path) = True"
| "is_download e = False"

fun is_makedirs :: "event \<Rightarrow> bool" where
  "is_makedirs (Makedirs d) = True"
| "is_makedirs e = False"

definition uploads :: "event list \<Rightarrow> event list" where
  "uploads tr = filter is_upload tr"


text \<open>
  A relative path in normal form: its components are neither empty nor \<open>.\<close> nor \<open>..\<close>.
\<close>

definition normal_rel :: "path \<Rightarrow> bool" where
  "normal_rel p = (\<forall>c \<in> set (split_sep p). c \<noteq> [] \<and> c \<noteq> ''.'' \<and> c \<noteq> ''..'')"


section \<open>Sample worlds\<close>

text \<open>
  One local file \<open>/data/a.txt\<close> holding \<open>hello\<close>, with the bucket empty, in sync,
  holding the object without fingerprint metadata, or failing; and a bucket with two
  objects to restore, listed on two pages.
\<close>

definition hello :: bytes where
  "hello = [104, 101, 108, 108, 111]"

definition demo_file :: mem where
  "demo_file = mem0\<lparr>files := [(''/data/a.txt'', hello)]\<rparr>"

definition demo_synced :: mem where
  "demo_synced = demo_file\<lparr>objects :=
     [(''backup/Default/a.txt'', hello, [(''file_md5'', compute_md5_bytes hello)])]\<rparr>"

definition demo_untagged :: mem where
  "demo_untagged = demo_file\<lparr>objects := [(''backup/Default/a.txt'', hello, [])]\<rparr>"

definition demo_forbidden :: mem where
  "demo_forbidden = demo_file\<lparr>head_faults :=
     [(''backup/Default/a.txt'', ClientError ''403'' ''Forbidden'')]\<rparr>"

definition demo_upload_fault :: mem where
  "demo_upload_fault = demo_file\<lparr>upload_faults :=
     [(''backup/Default/a.txt'', OtherError ''Connection reset'')]\<rparr>"

definition demo_bucket :: mem where
  "demo_bucket = mem0\<lparr>
     objects := [(''backup/Default/x.txt'', replicate 12 0x78, []),
                 (''backup/Default/y/z.txt'', replicate 8 0x7A, []),
                 (''backup/Default/a//b.txt'', replicate 3 0x62, [])],
     listing := [Inr (Some [(''backup/Default/x.txt'', 12)]),
                 Inr (Some [(''backup/Default/y/z.txt'', 8)])]\<rparr>"

definition demo_listing_fault :: mem where
  "demo_listing_fault = demo_bucket\<lparr>listing :=
     [Inr (Some [(''backup/Default/x.txt'', 12)]),
      Inl (ClientError ''500'' ''Internal Error'')]\<rparr>"

definition demo_download_fault :: mem where
  "demo_download_fault = demo_bucket\<lparr>download_faults :=
     [(''backup/Default/x.txt'', OtherError ''Connection reset'')]\<rparr>"

definition demo_pressed :: mem where
  "demo_pressed = demo_bucket\<lparr>pressed_during := [''backup/Default/x.txt'']\<rparr>"

definition demo_existing :: mem where
  "demo_existing = demo_bucket\<lparr>files := [(''/out/x.txt'', [1, 2, 3])]\<rparr>"

text \<open>
  The object is there without its fingerprint and the upload fails; a regular file
  \<open>/out/y\<close> stands where the restore needs a directory; and an environment in which
  the local files are deleted while \<open>head_object\<close> is under way.
\<close>

definition demo_untagged_fault :: mem where
  "demo_untagged_fault = demo_untagged\<lparr>upload_faults :=
     [(''backup/Default/a.txt'', OtherError ''Connection reset'')]\<rparr>"


definition vanishing_env :: "mem env" where
  "vanishing_env =
     mem_env\<lparr>head_object :=
       (\<lambda>w bucket k. case mem_head_object w bucket k of (r, w') \<Rightarrow> (r, w'\<lparr>files := []\<rparr>))\<rparr>"

text \<open>The calls that can change the local destination tree.\<close>

definition local_writes :: "event list \<Rightarrow> event list" where
  "local_writes tr = filter (\<lambda>e. is_download e \<or> is_makedirs e) tr"

section \<open>The fingerprint is the MD5 of the whole content\<close>

declare absorb.simps [simp del]
declare read_chunks.simps [simp del]

lemma absorb_append:
  "absorb h (xs @ ys) = (case absorb h xs of (c, r) \<Rightarrow> absorb c (r @ ys))"
proof (induction h xs rule: absorb.induct)
  case (1 h bs)
  show ?case
  proof (cases "length bs < 64")
    case True
    then show ?thesis by (simp add: absorb.simps [of h bs])
  next
    case False
    then have "absorb h (bs @ ys) = absorb (md5_compress h (take 64 bs)) (drop 64 bs @ ys)"
      by (simp add: absorb.simps [of h "bs @ ys"])
    also have "\<dots> = (case absorb (md5_compress h (take 64 bs)) (drop 64 bs) of
                       (c, r) \<Rightarrow> absorb c (r @ ys))"
      using False "1.IH" by simp
    also have "absorb (md5_compress h (take 64 bs)) (drop 64 bs) = absorb h bs"
      using False by (simp add: absorb.simps [of h bs])
    finally show ?thesis .
  qed
qed

lemma absorb_rest_short: "length (snd (absorb h bs)) < 64"
proof (induction h bs rule: absorb.induct)
  case (1 h bs)
  then show ?case by (cases "length bs < 64") (simp_all add: absorb.simps [of h bs])
qed

lemma md5_update_append: "md5_update (md5_update h a) b = md5_update h (a @ b)"
proof -
  obtain c r where cr: "absorb (chain h) (pending h @ a) = (c, r)"
    by (cases "absorb (chain h) (pending h @ a)")
  have "absorb (chain h) (pending h @ a @ b) = absorb c (r @ b)"
    using absorb_append [of "chain h" "pending h @ a" b] cr by simp
  then show ?thesis
    using cr by (simp add: md5_update_def split: prod.splits)
qed

lemma md5_update_pending: "length (pending (md5_update h a)) < 64"
proof -
  obtain c r where cr: "absorb (chain h) (pending h @ a) = (c, r)"
    by (cases "absorb (chain h) (pending h @ a)")
  then have "length r < 64"
    using absorb_rest_short [of "chain h" "pending h @ a"] by simp
  then show ?thesis
    using cr by (simp add: md5_update_def)
qed

lemma md5_update_empty: "length (pending h) < 64 \<Longrightarrow> md5_update h [] = h"
  by (simp add: md5_update_def absorb.simps [of "chain h" "pending h"])

lemma read_chunks_update:
  "length (pending h) < 64 \<Longrightarrow> read_chunks h f = md5_update h f"
proof (induction h f rule: read_chunks.induct)
  case (1 h f)
  show ?case
  proof (cases "f = []")
    case True
    then show ?thesis using "1.prems" by (simp add: read_chunks.simps [of h "[]"] md5_update_empty)
  next
    case False
    then have ne: "take 4096 f \<noteq> []" by simp
    have "read_chunks h f = read_chunks (md5_update h (take 4096 f)) (drop 4096 f)"
      using ne by (simp add: read_chunks.simps [of h f] Let_def)
    also have "\<dots> = md5_update (md5_update h (take 4096 f)) (drop 4096 f)"
      using "1.IH" [OF refl ne] md5_update_pending by simp
    also have "\<dots> = md5_update h f"
      by (simp add: md5_update_append)
    finally show ?thesis .
  qed
qed

text \<open>
  The digests of \<open>hello\<close> and of the empty file, as \<open>hashlib\<close> prints them.
\<close>

lemma compute_md5_hello: "compute_md5_bytes hello = ''5d41402abc4b2a76b9719d911017c592''"
  by code_simp

lemma compute_md5_empty: "compute_md5_bytes [] = ''d41d8cd98f00b204e9800998ecf8427e''"
  by code_simp

text \<open>
  C8. The fingerprint function, which reads the file in chunks of 4096 bytes and feeds
  each chunk to the digest, computes the MD5 digest of the whole content: for every byte
  sequence, the chunked computation equals the digest of the sequence fed in one call.
\<close>

theorem compute_md5_chunked_is_oneshot:
  "compute_md5_bytes content = md5_oneshot content"
  by (simp add: compute_md5_bytes_def md5_oneshot_def read_chunks_update hashlib_md5_def)

section \<open>Key derivation\<close>

lemma replace_backslash_append:
  "replace_backslash (a @ b) = replace_backslash a @ replace_backslash b"
  by (simp add: replace_backslash_def)

lemma replace_backslash_free: "backslash \<notin> set (replace_backslash s)"
  by (auto simp: replace_backslash_def backslash_def slash_def)

lemma backupjob_s3_key_shape:
  "backupjob_s3_key ns rel = ''backup/'' @ replace_backslash ns @ ''/'' @ replace_backslash rel"
  by (simp add: backupjob_s3_key_def replace_backslash_def backslash_def slash_def)

lemma backupjob_s3_key_eq_iff:
  "backupjob_s3_key ns1 rel = backupjob_s3_key ns2 rel
     \<longleftrightarrow> replace_backslash ns1 = replace_backslash ns2"
  by (simp add: backupjob_s3_key_shape)

lemma split_sep_not_Nil: "split_sep s \<noteq> []"
  by (induction s) (auto split: list.splits)

lemma split_sep_no_slash: "x \<in> set (split_sep s) \<Longrightarrow> slash \<notin> set x"
proof (induction s arbitrary: x)
  case Nil
  then show ?case by simp
next
  case (Cons c cs)
  then show ?case
    using split_sep_not_Nil [of cs]
    by (cases "split_sep cs") (auto split: if_splits)
qed

lemma join_sep_hd:
  "xs \<noteq> [] \<Longrightarrow> hd xs \<noteq> [] \<Longrightarrow> join_sep xs \<noteq> [] \<and> hd (join_sep xs) = hd (hd xs)"
  by (induction xs rule: join_sep.induct) auto

lemma relpath_relative:
  assumes "os_path_relpath cwd p start = Inr rel"
  shows "rel \<noteq> [] \<and> hd rel \<noteq> slash"
proof -
  define start_list where "start_list = filter (\<lambda>x. x \<noteq> []) (split_sep (os_path_abspath cwd start))"
  define path_list where "path_list = filter (\<lambda>x. x \<noteq> []) (split_sep (os_path_abspath cwd p))"
  define rel_list where "rel_list = replicate (length start_list - common_prefix_len start_list path_list) ''..''
                               @ drop (common_prefix_len start_list path_list) path_list"
  have rel: "rel = (if rel_list = [] then ''.'' else join_sep rel_list)"
    using assms
    by (auto simp: os_path_relpath_def Let_def start_list_def path_list_def rel_list_def
             split: if_splits)
  have elems: "x \<noteq> [] \<and> slash \<notin> set x" if "x \<in> set rel_list" for x
  proof -
    from that have "x = ''..'' \<or> x \<in> set path_list"
      by (auto simp: rel_list_def dest: in_set_dropD)
    then show ?thesis
      by (auto simp: path_list_def slash_def dest: split_sep_no_slash)
  qed
  show ?thesis
  proof (cases "rel_list = []")
    case True
    then show ?thesis using rel by (simp add: slash_def)
  next
    case False
    then have "hd rel_list \<in> set rel_list" by simp
    then have h: "hd rel_list \<noteq> []" "slash \<notin> set (hd rel_list)"
      using elems by auto
    then have "hd (hd rel_list) \<noteq> slash"
      by (cases "hd rel_list") auto
    then show ?thesis
      using rel False join_sep_hd [OF False h(1)] by simp
  qed
qed

lemma s3_key_of_backup_prefix:
  assumes "rel \<noteq> []" "hd rel \<noteq> slash"
  shows "s3_key_of (backup_prefix ns) rel = backupjob_s3_key ns rel"
  using assms
  by (simp add: s3_key_of_def backup_prefix_def backupjob_s3_key_def os_path_join_def slash_def)

text \<open>
  C4, as amended. The key is a function of the namespace and the relative path alone, of
  the shape \<open>backup/<namespace>/<relative-path>\<close> with every backslash of either part
  replaced by a forward slash; it contains no backslash. Two namespaces that still differ
  after that replacement give different keys for the same relative path. The key that
  S3Sync.py and Ver4.2.py build with \<open>os.path.join\<close> is the same key, for every relative
  path that \<open>os.path.relpath\<close> returns.
\<close>

theorem s3_key_derivation:
  "backupjob_s3_key ns rel = ''backup/'' @ replace_backslash ns @ ''/'' @ replace_backslash rel
   \<and> backslash \<notin> set (backupjob_s3_key ns rel)
   \<and> (replace_backslash ns1 \<noteq> replace_backslash ns2
        \<longrightarrow> backupjob_s3_key ns1 rel \<noteq> backupjob_s3_key ns2 rel)
   \<and> (os_path_relpath cwd full_path local_dir = Inr rel
        \<longrightarrow> s3_key_of (backup_prefix ns) rel = backupjob_s3_key ns rel)"
proof (intro conjI impI)
  show "backupjob_s3_key ns rel
          = ''backup/'' @ replace_backslash ns @ ''/'' @ replace_backslash rel"
    by (rule backupjob_s3_key_shape)
  show "backslash \<notin> set (backupjob_s3_key ns rel)"
    unfolding backupjob_s3_key_def by (rule replace_backslash_free)
  show "backupjob_s3_key ns1 rel \<noteq> backupjob_s3_key ns2 rel"
    if "replace_backslash ns1 \<noteq> replace_backslash ns2"
    using that by (simp add: backupjob_s3_key_eq_iff)
  show "s3_key_of (backup_prefix ns) rel = backupjob_s3_key ns rel"
    if "os_path_relpath cwd full_path local_dir = Inr rel"
    using relpath_relative [OF that] by (simp add: s3_key_of_backup_prefix)
qed

theorem s3_key_derivation_witness:
  "replace_backslash ''PC1'' \<noteq> replace_backslash ''PC2''
   \<and> backupjob_s3_key ''PC1'' ''sub/b.txt'' \<noteq> backupjob_s3_key ''PC2'' ''sub/b.txt''
   \<and> os_path_relpath ''/home/user'' ''/data/sub/b.txt'' ''/data'' = Inr ''sub/b.txt''
   \<and> s3_key_of (backup_prefix ''PC1'') ''sub/b.txt'' = ''backup/PC1/sub/b.txt''"
proof -
  have h1: "replace_backslash ''PC1'' \<noteq> replace_backslash ''PC2''"
    by (simp add: replace_backslash_def backslash_def slash_def)
  have h2: "os_path_relpath ''/home/user'' ''/data/sub/b.txt'' ''/data'' = Inr ''sub/b.txt''"
    by code_simp
  have k: "backupjob_s3_key ''PC1'' ''sub/b.txt'' = ''backup/PC1/sub/b.txt''"
    by code_simp
  note T = s3_key_derivation [of "''PC1''" "''sub/b.txt''" "''PC1''" "''PC2''" "''/home/user''"
                                "''/data/sub/b.txt''" "''/data''"]
  have c3: "backupjob_s3_key ''PC1'' ''sub/b.txt'' \<noteq> backupjob_s3_key ''PC2'' ''sub/b.txt''"
    using T h1 by blast
  have "s3_key_of (backup_prefix ''PC1'') ''sub/b.txt'' = backupjob_s3_key ''PC1'' ''sub/b.txt''"
    using T h2 by blast
  then have c4: "s3_key_of (backup_prefix ''PC1'') ''sub/b.txt'' = ''backup/PC1/sub/b.txt''"
    using k by (rule trans)
  from h1 c3 h2 c4 show ?thesis by blast
qed

text \<open>
  C4 as stated fails: the namespaces \<open>a\b\<close> and \<open>a/b\<close> are different, and the same
  relative path gets the same key under both, in backupjob.py and in S3Sync.py.
\<close>

theorem s3_key_collision_counterexample:
  "[CHR ''a'', backslash, CHR ''b''] \<noteq> ''a/b''
   \<and> backupjob_s3_key [CHR ''a'', backslash, CHR ''b''] ''f.txt'' = backupjob_s3_key ''a/b'' ''f.txt''
   \<and> s3_key_of (backup_prefix [CHR ''a'', backslash, CHR ''b'']) ''f.txt''
       = s3_key_of (backup_prefix ''a/b'') ''f.txt''"
  by (simp add: backupjob_s3_key_def s3_key_of_def backup_prefix_def os_path_join_def
                replace_backslash_def backslash_def slash_def)


section \<open>The upload pass, file by file\<close>

text \<open>
  What the first \<open>try\<close> statement yields for each answer of \<open>head_object\<close>, and the
  upload call every upload contributes to the trace.
\<close>

lemma check_remote_error:
  "head_object env (world s) bucket k = (Inl e, w1) \<Longrightarrow>
   check_remote env bucket k full_path local_md5 s =
     (Inl e, s\<lparr>world := w1, trace := trace s @ [HeadObject bucket k]\<rparr>)"
  by (simp add: check_remote_def emit_def)

lemma check_remote_differs:
  "head_object env (world s) bucket k = (Inr md, w1) \<Longrightarrow>
   map_of md ''file_md5'' \<noteq> Some local_md5 \<Longrightarrow>
   check_remote env bucket k full_path local_md5 s =
     (Inr Fallthrough, s\<lparr>world := w1, trace := trace s @ [HeadObject bucket k]\<rparr>)"
  by (simp add: check_remote_def emit_def)

lemma check_remote_same:
  "head_object env (world s) bucket k = (Inr md, w1) \<Longrightarrow>
   map_of md ''file_md5'' = Some local_md5 \<Longrightarrow>
   os_path_getsize env w1 full_path = Inr n \<Longrightarrow>
   check_remote env bucket k full_path local_md5 s =
     (Inr Continue,
      s\<lparr>world := w1,
         trace := trace s @ [HeadObject bucket k,
                             Log (''Skipping '' @ full_path @ '' (no changes)'')],
         bytes_uploaded := bytes_uploaded s + n\<rparr>)"
  by (simp add: check_remote_def emit_def log_def)

lemma backupjob_check_error:
  "head_object env (world s) bucket k = (Inl e, w1) \<Longrightarrow>
   backupjob_check env bucket k full_path local_md5 s =
     (Inl e, s\<lparr>world := w1, trace := trace s @ [HeadObject bucket k]\<rparr>)"
  by (simp add: backupjob_check_def emit_def)

lemma backupjob_check_differs:
  "head_object env (world s) bucket k = (Inr md, w1) \<Longrightarrow>
   map_of md ''file_md5'' \<noteq> Some local_md5 \<Longrightarrow>
   backupjob_check env bucket k full_path local_md5 s =
     (Inr Fallthrough, s\<lparr>world := w1, trace := trace s @ [HeadObject bucket k]\<rparr>)"
  by (simp add: backupjob_check_def emit_def)

lemma uploads_append: "uploads (xs @ ys) = uploads xs @ uploads ys"
  by (simp add: uploads_def)

lemma uploads_Nil: "uploads [] = []"
  by (simp add: uploads_def)

lemma uploads_Cons: "uploads (e # es) = (if is_upload e then e # uploads es else uploads es)"
  by (simp add: uploads_def)

lemma uploads_upload:
  "uploads (trace (upload env bucket k full_path local_md5 s)) =
     uploads (trace s) @ [UploadFile full_path bucket k [(''file_md5'', local_md5)]]"
  by (simp add: upload_def emit_def log_def uploads_def Let_def split: prod.splits option.splits)

lemma uploads_backupjob_upload:
  "uploads (trace (backupjob_upload env bucket k full_path local_md5 s)) =
     uploads (trace s) @ [UploadFile full_path bucket k [(''file_md5'', local_md5)]]"
  by (simp add: backupjob_upload_def emit_def print_def uploads_def Let_def
           split: prod.splits option.splits)

lemmas body_defs =
  S3Sync_backup_file_def Ver42_backup_file_def backupjob_backup_file_def compute_md5_def
  uploads_upload uploads_backupjob_upload uploads_append uploads_Nil uploads_Cons Let_def

lemmas mem_defs =
  mem_env_def mem0_def mem_getsize_def mem_open_rb_def mem_head_object_def
  mem_upload_file_def mem_makedirs_def mem_download_file_def app0_def
  no_such_file_def not_found_def

lemmas demo_defs =
  demo_file_def demo_synced_def demo_untagged_def demo_forbidden_def demo_upload_fault_def
  demo_bucket_def demo_listing_fault_def demo_download_fault_def demo_pressed_def
  demo_existing_def

lemma demo_key:
  "s3_key_of (backup_prefix ''Default'') ''a.txt'' = ''backup/Default/a.txt''"
  "backupjob_s3_key ''Default'' ''a.txt'' = ''backup/Default/a.txt''"
  by (simp_all add: s3_key_of_def backup_prefix_def backupjob_s3_key_def os_path_join_def
                    replace_backslash_def backslash_def slash_def)




text \<open>
  C2, as amended. In the upload passes of S3Sync.py and Ver4.2.py, for a file whose
  freshly computed fingerprint equals the fingerprint in the remote object's metadata and
  for which \<open>os.path.getsize\<close> then returns the size \<open>n\<close>, no upload call is made
  and the progress counter is advanced by \<open>n\<close>.
\<close>

theorem skip_when_fingerprint_matches:
  assumes "open_rb env (world s) full_path = Inr content"
    and "head_object env (world s) bucket (s3_key_of prefix rel_path) = (Inr md, w1)"
    and "map_of md ''file_md5'' = Some (compute_md5_bytes content)"
    and "os_path_getsize env w1 full_path = Inr n"
  shows "S3Sync_backup_file env bucket prefix (full_path, rel_path) s =
           (None, s\<lparr>world := w1,
                     trace := trace s @ [HeadObject bucket (s3_key_of prefix rel_path),
                                         Log (''Skipping '' @ full_path @ '' (no changes)'')],
                     bytes_uploaded := bytes_uploaded s + n\<rparr>)
         \<and> Ver42_backup_file env bucket prefix (full_path, rel_path) s =
             S3Sync_backup_file env bucket prefix (full_path, rel_path) s
         \<and> uploads (trace (snd (S3Sync_backup_file env bucket prefix (full_path, rel_path) s)))
             = uploads (trace s)"
  using assms by (simp add: body_defs check_remote_same)

theorem skip_when_fingerprint_matches_witness:
  "open_rb mem_env (world (app0 demo_synced)) ''/data/a.txt'' = Inr hello
   \<and> head_object mem_env (world (app0 demo_synced)) ''bucket''
         (s3_key_of (backup_prefix ''Default'') ''a.txt'')
       = (Inr [(''file_md5'', compute_md5_bytes hello)], demo_synced)
   \<and> map_of [(''file_md5'', compute_md5_bytes hello)] ''file_md5''
       = Some (compute_md5_bytes hello)
   \<and> os_path_getsize mem_env demo_synced ''/data/a.txt'' = Inr 5
   \<and> S3Sync_backup_file mem_env ''bucket'' (backup_prefix ''Default'')
         (''/data/a.txt'', ''a.txt'') (app0 demo_synced)
       = (None, (app0 demo_synced)\<lparr>
            trace := [HeadObject ''bucket'' ''backup/Default/a.txt'',
                      Log ''Skipping /data/a.txt (no changes)''],
            bytes_uploaded := 5\<rparr>)"
proof -
  have h1: "open_rb mem_env (world (app0 demo_synced)) ''/data/a.txt'' = Inr hello"
    by (simp add: mem_defs demo_defs)
  have h2: "head_object mem_env (world (app0 demo_synced)) ''bucket''
              (s3_key_of (backup_prefix ''Default'') ''a.txt'')
            = (Inr [(''file_md5'', compute_md5_bytes hello)], demo_synced)"
    by (simp add: mem_defs demo_defs demo_key)
  have h3: "map_of [(''file_md5'', compute_md5_bytes hello)] ''file_md5''
              = Some (compute_md5_bytes hello)"
    by simp
  have h4: "os_path_getsize mem_env demo_synced ''/data/a.txt'' = Inr 5"
    by (simp add: mem_defs demo_defs hello_def)
  from skip_when_fingerprint_matches [OF h1 h2 h3 h4]
  show ?thesis
    using h1 h2 h4 by (simp add: demo_key) (simp add: app0_def)
qed

text \<open>
  C2 as stated fails when the size cannot be read: the fingerprint of \<open>/data/a.txt\<close>
  equals the stored one, the file is deleted while the metadata is fetched,
  \<open>os.path.getsize\<close> raises inside the first \<open>try\<close>, and S3Sync.py goes on to the
  upload call with the counter where it was.
\<close>

theorem skip_needs_getsize_counterexample:
  "open_rb vanishing_env (world (app0 demo_synced)) ''/data/a.txt'' = Inr hello
   \<and> fst (head_object vanishing_env (world (app0 demo_synced)) ''bucket'' ''backup/Default/a.txt'')
       = Inr [(''file_md5'', compute_md5_bytes hello)]
   \<and> S3Sync_backup_file vanishing_env ''bucket'' (backup_prefix ''Default'')
         (''/data/a.txt'', ''a.txt'') (app0 demo_synced)
       = (None, (app0 demo_synced)\<lparr>
            world := demo_synced\<lparr>files := []\<rparr>,
            trace :=
              [HeadObject ''bucket'' ''backup/Default/a.txt'',
               Log ''Skipping /data/a.txt (no changes)'',
               UploadFile ''/data/a.txt'' ''bucket'' ''backup/Default/a.txt''
                 [(''file_md5'', compute_md5_bytes hello)],
               Log ''Error uploading /data/a.txt: No such file or directory'']\<rparr>)
   \<and> bytes_uploaded (snd (S3Sync_backup_file vanishing_env ''bucket'' (backup_prefix ''Default'')
                             (''/data/a.txt'', ''a.txt'') (app0 demo_synced))) = 0"
  by (simp add: S3Sync_backup_file_def check_remote_def upload_def compute_md5_def emit_def
                log_def Let_def demo_key vanishing_env_def mem_defs demo_defs)

text \<open>
  What an upload that returns leaves behind.
\<close>

lemma upload_success:
  "upload_file env (world s) full_path bucket k [(''file_md5'', local_md5)]
     = ((amounts, None), w2) \<Longrightarrow>
   upload env bucket k full_path local_md5 s =
     s\<lparr>world := w2,
        bytes_uploaded := bytes_uploaded s + sum_list amounts,
        trace := trace s @ [UploadFile full_path bucket k [(''file_md5'', local_md5)],
                            Log (''Uploaded '' @ full_path @ '' to s3://'' @ bucket @ ''/'' @ k)]\<rparr>"
  by (simp add: upload_def emit_def log_def)

lemma backupjob_upload_success:
  "upload_file env (world s) full_path bucket k [(''file_md5'', local_md5)]
     = ((amounts, None), w2) \<Longrightarrow>
   backupjob_upload env bucket k full_path local_md5 s =
     s\<lparr>world := w2,
        trace := trace s @ [UploadFile full_path bucket k [(''file_md5'', local_md5)],
                            Print (''Uploaded '' @ full_path @ '' to s3://'' @ bucket @ ''/'' @ k)]\<rparr>"
  by (simp add: backupjob_upload_def emit_def print_def)

lemmas file_defs =
  S3Sync_backup_file_def Ver42_backup_file_def backupjob_backup_file_def compute_md5_def Let_def

text \<open>
  C3, as amended. In the upload pass, for a file whose key has no remote counterpart (the
  metadata fetch reports 404) and whose upload call returns: \<open>upload_file\<close> is applied
  to the file, the bucket and the key, with the fingerprint as metadata under the key name
  \<open>file_md5\<close>, and the pass goes on in the world that call left, the one in which the
  object is stored; this is so in S3Sync.py, Ver4.2.py and backupjob.py.
\<close>

theorem upload_when_not_found:
  assumes "open_rb env (world s) full_path = Inr content"
    and "head_object env (world s) bucket k = (Inl (ClientError ''404'' msg), w1)"
    and "upload_file env w1 full_path bucket k [(''file_md5'', compute_md5_bytes content)]
           = ((amounts, None), w2)"
  shows "(k = s3_key_of prefix rel_path \<longrightarrow>
            S3Sync_backup_file env bucket prefix (full_path, rel_path) s =
              (None,
               s\<lparr>world := w2,
                  bytes_uploaded := bytes_uploaded s + sum_list amounts,
                  trace := trace s @
                    [HeadObject bucket k,
                     UploadFile full_path bucket k [(''file_md5'', compute_md5_bytes content)],
                     Log (''Uploaded '' @ full_path @ '' to s3://'' @ bucket @ ''/'' @ k)]\<rparr>)
            \<and> Ver42_backup_file env bucket prefix (full_path, rel_path) s =
                S3Sync_backup_file env bucket prefix (full_path, rel_path) s)
         \<and> (k = backupjob_s3_key computer_folder rel_path \<longrightarrow>
            backupjob_backup_file env bucket computer_folder (full_path, rel_path) s =
              (None,
               s\<lparr>world := w2,
                  trace := trace s @
                    [HeadObject bucket k,
                     UploadFile full_path bucket k [(''file_md5'', compute_md5_bytes content)],
                     Print (''Uploaded '' @ full_path @ '' to s3://'' @ bucket @ ''/'' @ k)]\<rparr>))"
  using assms
  by (auto simp: file_defs check_remote_error backupjob_check_error
                 upload_success backupjob_upload_success)

theorem upload_when_not_found_witness:
  "open_rb mem_env (world (app0 demo_file)) ''/data/a.txt'' = Inr hello
   \<and> head_object mem_env (world (app0 demo_file)) ''bucket'' ''backup/Default/a.txt''
       = (Inl (ClientError ''404'' ''Not Found''), demo_file)
   \<and> upload_file mem_env demo_file ''/data/a.txt'' ''bucket'' ''backup/Default/a.txt''
         [(''file_md5'', compute_md5_bytes hello)]
       = (([5], None),
          demo_file\<lparr>objects :=
            [(''backup/Default/a.txt'', hello, [(''file_md5'', compute_md5_bytes hello)])]\<rparr>)
   \<and> S3Sync_backup_file mem_env ''bucket'' (backup_prefix ''Default'')
         (''/data/a.txt'', ''a.txt'') (app0 demo_file)
       = (None, (app0 demo_file)\<lparr>
            world := demo_file\<lparr>objects :=
              [(''backup/Default/a.txt'', hello, [(''file_md5'', compute_md5_bytes hello)])]\<rparr>,
            bytes_uploaded := 5,
            trace :=
              [HeadObject ''bucket'' ''backup/Default/a.txt'',
               UploadFile ''/data/a.txt'' ''bucket'' ''backup/Default/a.txt''
                 [(''file_md5'', compute_md5_bytes hello)],
               Log ''Uploaded /data/a.txt to s3://bucket/backup/Default/a.txt'']\<rparr>)
   \<and> objects (world (snd (backupjob_backup_file mem_env ''bucket'' ''Default''
                             (''/data/a.txt'', ''a.txt'') (app0 demo_file))))
       = [(''backup/Default/a.txt'', hello, [(''file_md5'', compute_md5_bytes hello)])]"
proof -
  let ?w2 = "demo_file\<lparr>objects :=
            [(''backup/Default/a.txt'', hello, [(''file_md5'', compute_md5_bytes hello)])]\<rparr>"
  have h1: "open_rb mem_env (world (app0 demo_file)) ''/data/a.txt'' = Inr hello"
    by (simp add: mem_defs demo_defs)
  have h2: "head_object mem_env (world (app0 demo_file)) ''bucket'' ''backup/Default/a.txt''
              = (Inl (ClientError ''404'' ''Not Found''), demo_file)"
    by (simp add: mem_defs demo_defs)
  have h3: "upload_file mem_env demo_file ''/data/a.txt'' ''bucket'' ''backup/Default/a.txt''
              [(''file_md5'', compute_md5_bytes hello)] = (([5], None), ?w2)"
    by (simp add: mem_defs demo_defs hello_def)
  note T = upload_when_not_found [OF h1 h2 h3, of "backup_prefix ''Default''" "''a.txt''"
             "''Default''"]
  have c1: "S3Sync_backup_file mem_env ''bucket'' (backup_prefix ''Default'')
              (''/data/a.txt'', ''a.txt'') (app0 demo_file)
            = (None, (app0 demo_file)\<lparr>world := ?w2, bytes_uploaded := 5,
                 trace :=
                   [HeadObject ''bucket'' ''backup/Default/a.txt'',
                    UploadFile ''/data/a.txt'' ''bucket'' ''backup/Default/a.txt''
                      [(''file_md5'', compute_md5_bytes hello)],
                    Log ''Uploaded /data/a.txt to s3://bucket/backup/Default/a.txt'']\<rparr>)"
    using T by (simp add: demo_key) (simp add: app0_def)
  have c2: "objects (world (snd (backupjob_backup_file mem_env ''bucket'' ''Default''
                             (''/data/a.txt'', ''a.txt'') (app0 demo_file))))
       = [(''backup/Default/a.txt'', hello, [(''file_md5'', compute_md5_bytes hello)])]"
    using T by (simp add: demo_key)
  from h1 h2 h3 c1 c2 show ?thesis by blast
qed

text \<open>
  C3 as stated fails when the upload raises: the key has no remote counterpart, the
  upload call is made and fails, the failure is logged, and no object is stored.
\<close>

theorem upload_failure_stores_nothing_counterexample:
  "head_object mem_env (world (app0 demo_upload_fault)) ''bucket'' ''backup/Default/a.txt''
     = (Inl (ClientError ''404'' ''Not Found''), demo_upload_fault)
   \<and> S3Sync_backup_file mem_env ''bucket'' (backup_prefix ''Default'')
         (''/data/a.txt'', ''a.txt'') (app0 demo_upload_fault)
       = (None, (app0 demo_upload_fault)\<lparr>trace :=
            [HeadObject ''bucket'' ''backup/Default/a.txt'',
             UploadFile ''/data/a.txt'' ''bucket'' ''backup/Default/a.txt''
               [(''file_md5'', compute_md5_bytes hello)],
             Log ''Error uploading /data/a.txt: Connection reset'']\<rparr>)
   \<and> objects (world (snd (S3Sync_backup_file mem_env ''bucket'' (backup_prefix ''Default'')
                             (''/data/a.txt'', ''a.txt'') (app0 demo_upload_fault)))) = []"
  by (simp add: S3Sync_backup_file_def check_remote_def upload_def compute_md5_def emit_def
                log_def Let_def demo_key mem_defs demo_defs)

text \<open>
  C10, as amended. In the upload pass, for a file whose metadata fetch succeeds, whose
  metadata has no entry under \<open>file_md5\<close> and whose upload call returns: the absent
  entry (\<open>None\<close>) is not equal to the local fingerprint, \<open>upload_file\<close> is applied to
  the file with the fingerprint as metadata, and the pass goes on in the world that call
  left, in which the object carries the fingerprint.
\<close>

theorem upload_when_fingerprint_absent:
  assumes "open_rb env (world s) full_path = Inr content"
    and "head_object env (world s) bucket k = (Inr md, w1)"
    and "map_of md ''file_md5'' = None"
    and "upload_file env w1 full_path bucket k [(''file_md5'', compute_md5_bytes content)]
           = ((amounts, None), w2)"
  shows "(k = s3_key_of prefix rel_path \<longrightarrow>
            S3Sync_backup_file env bucket prefix (full_path, rel_path) s =
              (None,
               s\<lparr>world := w2,
                  bytes_uploaded := bytes_uploaded s + sum_list amounts,
                  trace := trace s @
                    [HeadObject bucket k,
                     UploadFile full_path bucket k [(''file_md5'', compute_md5_bytes content)],
                     Log (''Uploaded '' @ full_path @ '' to s3://'' @ bucket @ ''/'' @ k)]\<rparr>)
            \<and> Ver42_backup_file env bucket prefix (full_path, rel_path) s =
                S3Sync_backup_file env bucket prefix (full_path, rel_path) s)
         \<and> (k = backupjob_s3_key computer_folder rel_path \<longrightarrow>
            backupjob_backup_file env bucket computer_folder (full_path, rel_path) s =
              (None,
               s\<lparr>world := w2,
                  trace := trace s @
                    [HeadObject bucket k,
                     UploadFile full_path bucket k [(''file_md5'', compute_md5_bytes content)],
                     Print (''Uploaded '' @ full_path @ '' to s3://'' @ bucket @ ''/'' @ k)]\<rparr>))"
  using assms
  by (auto simp: file_defs check_remote_differs backupjob_check_differs
                 upload_success backupjob_upload_success)

theorem upload_when_fingerprint_absent_witness:
  "open_rb mem_env (world (app0 demo_untagged)) ''/data/a.txt'' = Inr hello
   \<and> head_object mem_env (world (app0 demo_untagged)) ''bucket'' ''backup/Default/a.txt''
       = (Inr [], demo_untagged)
   \<and> map_of ([] :: metadata) ''file_md5'' = None
   \<and> upload_file mem_env demo_untagged ''/data/a.txt'' ''bucket'' ''backup/Default/a.txt''
         [(''file_md5'', compute_md5_bytes hello)]
       = (([5], None),
          demo_untagged\<lparr>objects :=
            [(''backup/Default/a.txt'', hello, [(''file_md5'', compute_md5_bytes hello)]),
             (''backup/Default/a.txt'', hello, [])]\<rparr>)
   \<and> S3Sync_backup_file mem_env ''bucket'' (backup_prefix ''Default'')
         (''/data/a.txt'', ''a.txt'') (app0 demo_untagged)
       = (None, (app0 demo_untagged)\<lparr>
            world := demo_untagged\<lparr>objects :=
              [(''backup/Default/a.txt'', hello, [(''file_md5'', compute_md5_bytes hello)]),
               (''backup/Default/a.txt'', hello, [])]\<rparr>,
            bytes_uploaded := 5,
            trace :=
              [HeadObject ''bucket'' ''backup/Default/a.txt'',
               UploadFile ''/data/a.txt'' ''bucket'' ''backup/Default/a.txt''
                 [(''file_md5'', compute_md5_bytes hello)],
               Log ''Uploaded /data/a.txt to s3://bucket/backup/Default/a.txt'']\<rparr>)
   \<and> map_of (objects (world (snd (backupjob_backup_file mem_env ''bucket'' ''Default''
                                     (''/data/a.txt'', ''a.txt'') (app0 demo_untagged)))))
         ''backup/Default/a.txt''
       = Some (hello, [(''file_md5'', compute_md5_bytes hello)])"
proof -
  let ?w2 = "demo_untagged\<lparr>objects :=
            [(''backup/Default/a.txt'', hello, [(''file_md5'', compute_md5_bytes hello)]),
             (''backup/Default/a.txt'', hello, [])]\<rparr>"
  have h1: "open_rb mem_env (world (app0 demo_untagged)) ''/data/a.txt'' = Inr hello"
    by (simp add: mem_defs demo_defs)
  have h2: "head_object mem_env (world (app0 demo_untagged)) ''bucket'' ''backup/Default/a.txt''
              = (Inr [], demo_untagged)"
    by (simp add: mem_defs demo_defs)
  have h3: "map_of ([] :: metadata) ''file_md5'' = None"
    by simp
  have h4: "upload_file mem_env demo_untagged ''/data/a.txt'' ''bucket'' ''backup/Default/a.txt''
              [(''file_md5'', compute_md5_bytes hello)] = (([5], None), ?w2)"
    by (simp add: mem_defs demo_defs hello_def)
  note T = upload_when_fingerprint_absent [OF h1 h2 h3 h4, of "backup_prefix ''Default''"
             "''a.txt''" "''Default''"]
  have c1: "S3Sync_backup_file mem_env ''bucket'' (backup_prefix ''Default'')
              (''/data/a.txt'', ''a.txt'') (app0 demo_untagged)
            = (None, (app0 demo_untagged)\<lparr>world := ?w2, bytes_uploaded := 5,
                 trace :=
                   [HeadObject ''bucket'' ''backup/Default/a.txt'',
                    UploadFile ''/data/a.txt'' ''bucket'' ''backup/Default/a.txt''
                      [(''file_md5'', compute_md5_bytes hello)],
                    Log ''Uploaded /data/a.txt to s3://bucket/backup/Default/a.txt'']\<rparr>)"
    using T by (simp add: demo_key) (simp add: app0_def)
  have c2: "map_of (objects (world (snd (backupjob_backup_file mem_env ''bucket'' ''Default''
                                     (''/data/a.txt'', ''a.txt'') (app0 demo_untagged)))))
              ''backup/Default/a.txt''
            = Some (hello, [(''file_md5'', compute_md5_bytes hello)])"
    using T by (simp add: demo_key)
  from h1 h2 h3 h4 c1 c2 show ?thesis by blast
qed

text \<open>
  C10 as stated fails when the upload raises: the object has no fingerprint, the upload
  call is made and fails, and the object is left without fingerprint metadata.
\<close>

theorem upload_failure_leaves_untagged_counterexample:
  "head_object mem_env (world (app0 demo_untagged_fault)) ''bucket'' ''backup/Default/a.txt''
     = (Inr [], demo_untagged_fault)
   \<and> map_of ([] :: metadata) ''file_md5'' = None
   \<and> S3Sync_backup_file mem_env ''bucket'' (backup_prefix ''Default'')
         (''/data/a.txt'', ''a.txt'') (app0 demo_untagged_fault)
       = (None, (app0 demo_untagged_fault)\<lparr>trace :=
            [HeadObject ''bucket'' ''backup/Default/a.txt'',
             UploadFile ''/data/a.txt'' ''bucket'' ''backup/Default/a.txt''
               [(''file_md5'', compute_md5_bytes hello)],
             Log ''Error uploading /data/a.txt: Connection reset'']\<rparr>)
   \<and> objects (world (snd (S3Sync_backup_file mem_env ''bucket'' (backup_prefix ''Default'')
                             (''/data/a.txt'', ''a.txt'') (app0 demo_untagged_fault))))
       = [(''backup/Default/a.txt'', hello, [])]"
  by (simp add: S3Sync_backup_file_def check_remote_def upload_def compute_md5_def emit_def
                log_def Let_def demo_key mem_defs demo_defs demo_untagged_fault_def)

section \<open>Paths below the prefix\<close>

text \<open>
  Splitting and joining at slashes are inverse to each other, and \<open>normpath\<close> leaves
  components in normal form alone; hence \<open>relpath\<close> of a key against the prefix it
  starts with gives back the remainder, when the remainder is in normal form.
\<close>

lemma split_sep_Cons_shape: "\<exists>x xs. split_sep s = x # xs"
  using split_sep_not_Nil [of s] by (cases "split_sep s") auto

lemma split_sep_append_slash: "split_sep (a @ slash # b) = split_sep a @ split_sep b"
proof (induction a)
  case Nil
  then show ?case by simp
next
  case (Cons c cs)
  obtain x xs where x: "split_sep cs = x # xs"
    using split_sep_Cons_shape by blast
  with Cons show ?case by simp
qed

lemma join_sep_Cons: "join_sep ((c # x) # xs) = c # join_sep (x # xs)"
  by (cases xs) simp_all

lemma join_split: "join_sep (split_sep s) = s"
proof (induction s)
  case Nil
  then show ?case by simp
next
  case (Cons c cs)
  obtain x xs where x: "split_sep cs = x # xs"
    using split_sep_Cons_shape by blast
  with Cons show ?case by (simp add: join_sep_Cons)
qed

lemma split_sep_no_slash_id: "slash \<notin> set x \<Longrightarrow> split_sep x = [x]"
  by (induction x) auto

lemma split_join:
  "M \<noteq> [] \<Longrightarrow> \<forall>c \<in> set M. slash \<notin> set c \<Longrightarrow> split_sep (join_sep M) = M"
proof (induction M rule: join_sep.induct)
  case 1
  then show ?case by simp
next
  case (2 x)
  then show ?case by (simp add: split_sep_no_slash_id)
next
  case (3 x y ys)
  then show ?case
    using split_sep_append_slash [of x "join_sep (y # ys)"]
    by (simp add: split_sep_no_slash_id)
qed

lemma filter_split_join:
  assumes "\<forall>c \<in> set M. c \<noteq> [] \<and> slash \<notin> set c"
  shows "filter (\<lambda>x. x \<noteq> []) (split_sep (join_sep M)) = M"
proof (cases "M = []")
  case True
  then show ?thesis by simp
next
  case False
  then have "split_sep (join_sep M) = M"
    using assms by (simp add: split_join)
  moreover have "filter (\<lambda>x. x \<noteq> []) M = M"
    using assms by (simp add: filter_id_conv)
  ultimately show ?thesis by simp
qed

lemma filter_split_slashes:
  "filter (\<lambda>x. x \<noteq> []) (split_sep (replicate k slash @ s))
     = filter (\<lambda>x. x \<noteq> []) (split_sep s)"
  by (induction k) simp_all

lemma fold_norm_clean:
  "\<forall>c \<in> set R. c \<noteq> [] \<and> c \<noteq> ''.'' \<and> c \<noteq> ''..'' \<Longrightarrow>
   fold (norm_step k) R N = N @ R"
  by (induction R arbitrary: N) (simp_all add: norm_step_def)

lemma norm_step_elems:
  assumes "\<forall>c \<in> set acc. c \<noteq> [] \<and> slash \<notin> set c" and "slash \<notin> set part"
  shows "\<forall>c \<in> set (norm_step k part acc). c \<noteq> [] \<and> slash \<notin> set c"
  using assms by (auto simp: norm_step_def dest: in_set_butlastD)

lemma fold_norm_elems:
  "\<forall>c \<in> set acc. c \<noteq> [] \<and> slash \<notin> set c \<Longrightarrow>
   \<forall>c \<in> set xs. slash \<notin> set c \<Longrightarrow>
   \<forall>c \<in> set (fold (norm_step k) xs acc). c \<noteq> [] \<and> slash \<notin> set c"
proof (induction xs arbitrary: acc)
  case Nil
  then show ?case by simp
next
  case (Cons x xs)
  have "\<forall>c \<in> set (norm_step k x acc). c \<noteq> [] \<and> slash \<notin> set c"
    using Cons.prems by (intro norm_step_elems) auto
  then show ?case
    using Cons.IH [of "norm_step k x acc"] Cons.prems by simp
qed

lemma common_prefix_len_append: "common_prefix_len N (N @ R) = length N"
proof (induction N)
  case Nil
  then show ?case by (cases R) simp_all
next
  case (Cons a N)
  then show ?case by simp
qed

lemma initial_slashes_append:
  "3 \<le> length S \<Longrightarrow> initial_slashes (S @ rest) = initial_slashes S"
  by (simp add: initial_slashes_def)

lemma initial_slashes_pos: "take 1 S = [slash] \<Longrightarrow> 0 < initial_slashes S"
  by (simp add: initial_slashes_def)

text \<open>Normalising an absolute path that ends with a slash, and the same path continued
  by a relative path in normal form.\<close>

lemma normpath_dir_and_below:
  assumes abs: "take 1 Y = [slash]" and len: "2 \<le> length Y" and nr: "normal_rel rest"
  defines "k \<equiv> initial_slashes (Y @ [slash])"
  defines "N \<equiv> fold (norm_step k) (split_sep Y) []"
  shows "filter (\<lambda>x. x \<noteq> []) (split_sep (os_path_normpath (Y @ [slash]))) = N"
    and "filter (\<lambda>x. x \<noteq> []) (split_sep (os_path_normpath (Y @ slash # rest)))
           = N @ split_sep rest"
proof -
  have kpos: "0 < k"
    unfolding k_def using abs len by (cases Y) (auto simp: initial_slashes_def)
  have k': "initial_slashes (Y @ slash # rest) = k"
    using initial_slashes_append [of "Y @ [slash]" rest] len by (simp add: k_def)
  have Nel: "\<forall>c \<in> set N. c \<noteq> [] \<and> slash \<notin> set c"
    unfolding N_def by (rule fold_norm_elems) (auto dest: split_sep_no_slash)
  have clean: "\<forall>c \<in> set (split_sep rest). c \<noteq> [] \<and> c \<noteq> ''.'' \<and> c \<noteq> ''..''"
    using nr by (simp add: normal_rel_def)
  have f1: "fold (norm_step k) (split_sep (Y @ [slash])) [] = N"
    using split_sep_append_slash [of Y "[]"] by (simp add: N_def norm_step_def)
  have f2: "fold (norm_step k) (split_sep (Y @ slash # rest)) [] = N @ split_sep rest"
    using split_sep_append_slash [of Y rest] clean by (simp add: N_def fold_norm_clean)
  have n1: "os_path_normpath (Y @ [slash]) = replicate k slash @ join_sep N"
    using kpos f1 by (simp add: os_path_normpath_def Let_def k_def [symmetric])
  have n2: "os_path_normpath (Y @ slash # rest) = replicate k slash @ join_sep (N @ split_sep rest)"
    using kpos f2 k' by (simp add: os_path_normpath_def Let_def)
  show "filter (\<lambda>x. x \<noteq> []) (split_sep (os_path_normpath (Y @ [slash]))) = N"
    using Nel by (simp add: n1 filter_split_slashes filter_split_join)
  have "\<forall>c \<in> set (N @ split_sep rest). c \<noteq> [] \<and> slash \<notin> set c"
    using Nel clean by (auto dest: split_sep_no_slash)
  then show "filter (\<lambda>x. x \<noteq> []) (split_sep (os_path_normpath (Y @ slash # rest)))
           = N @ split_sep rest"
    by (simp only: n2 filter_split_slashes filter_split_join)
qed

lemma relpath_below_prefix:
  assumes cwd: "take 1 cwd = [slash]" and nr: "normal_rel rest"
  shows "os_path_relpath cwd (backup_prefix ns @ rest) (backup_prefix ns) = Inr rest"
proof -
  define Y where "Y = (if last cwd = slash then cwd else cwd @ [slash]) @ ''backup/'' @ ns"
  have cwd_ne: "cwd \<noteq> []" using cwd by auto
  have j1: "os_path_join cwd (backup_prefix ns) = Y @ [slash]"
    using cwd_ne by (simp add: os_path_join_def backup_prefix_def Y_def slash_def)
  have j2: "os_path_join cwd (backup_prefix ns @ rest) = Y @ slash # rest"
    using cwd_ne by (simp add: os_path_join_def backup_prefix_def Y_def slash_def)
  have Yabs: "take 1 Y = [slash]"
    using cwd cwd_ne by (cases cwd) (auto simp: Y_def)
  have Ylen: "2 \<le> length Y"
    by (simp add: Y_def)
  have nabs: "take 1 (backup_prefix ns) \<noteq> [slash]" "take 1 (backup_prefix ns @ rest) \<noteq> [slash]"
    by (simp_all add: backup_prefix_def slash_def)
  have a1: "os_path_abspath cwd (backup_prefix ns) = os_path_normpath (Y @ [slash])"
    using nabs j1 by (simp add: os_path_abspath_def)
  have a2: "os_path_abspath cwd (backup_prefix ns @ rest) = os_path_normpath (Y @ slash # rest)"
    using nabs j2 by (simp add: os_path_abspath_def)
  have pne: "backup_prefix ns @ rest \<noteq> []"
    by (simp add: backup_prefix_def)
  note np = normpath_dir_and_below [OF Yabs Ylen nr]
  have ne: "split_sep rest \<noteq> []" by (rule split_sep_not_Nil)
  show ?thesis
    using ne pne
    by (simp add: os_path_relpath_def Let_def a1 a2 np common_prefix_len_append join_split)
qed

lemma demo_paths:
  "os_path_relpath ''/home/user'' ''backup/Default/x.txt'' ''backup/Default/'' = Inr ''x.txt''"
  "os_path_relpath ''/home/user'' ''backup/Default/x.txt'' ''backup/Default'' = Inr ''x.txt''"
  "os_path_relpath ''/home/user'' ''backup/Default/a//b.txt'' ''backup/Default/'' = Inr ''a/b.txt''"
  "os_path_join ''/out'' ''x.txt'' = ''/out/x.txt''"
  "os_path_join ''/out'' ''a/b.txt'' = ''/out/a/b.txt''"
  "os_path_join ''/out'' ''a//b.txt'' = ''/out/a//b.txt''"
  "os_path_dirname ''/out/x.txt'' = ''/out''"
  "os_path_dirname ''/out/a/b.txt'' = ''/out/a''"
  "os_path_basename ''/out/x.txt'' = ''x.txt''"
  "backup_prefix ''Default'' = ''backup/Default/''"
  "strip ''bucket'' = ''bucket''" "strip ''AK'' = ''AK''" "strip ''SK'' = ''SK''"
  "strip [] = []" "or_default [] = ''Default''"
  "normal_rel ''x.txt''"
  by code_simp+


section \<open>A failed transfer does not end the pass\<close>

lemma upload_failure:
  "upload_file env (world s) full_path bucket k [(''file_md5'', local_md5)]
     = ((amounts, Some e), w2) \<Longrightarrow>
   upload env bucket k full_path local_md5 s =
     s\<lparr>world := w2,
        bytes_uploaded := bytes_uploaded s + sum_list amounts,
        trace := trace s @ [UploadFile full_path bucket k [(''file_md5'', local_md5)],
                            Log (''Error uploading '' @ full_path @ '': '' @ str_exn e)]\<rparr>"
  by (simp add: upload_def emit_def log_def)

text \<open>
  C6. A failure of a single file's upload in the upload pass, or of a single object's
  download in the restore pass, is logged and does not abort the pass: the loop goes on
  with every file or object that remains. The upload is the one the loop body of S3Sync.py
  makes after its first \<open>try\<close> statement did not skip the file.
\<close>

theorem transfer_failure_is_not_fatal:
  "(open_rb env (world s) full_path = Inr content
    \<and> check_remote env bucket (s3_key_of prefix rel_path) full_path
          (compute_md5_bytes content) s = (r, s1)
    \<and> r \<noteq> Inr Continue
    \<and> upload_file env (world s1) full_path bucket (s3_key_of prefix rel_path)
          [(''file_md5'', compute_md5_bytes content)] = ((amounts, Some e), w2)
    \<longrightarrow>
      for_each (S3Sync_backup_file env bucket prefix) ((full_path, rel_path) # rest) s =
      for_each (S3Sync_backup_file env bucket prefix) rest
        (s1\<lparr>world := w2,
            bytes_uploaded := bytes_uploaded s1 + sum_list amounts,
            trace := trace s1 @
              [UploadFile full_path bucket (s3_key_of prefix rel_path)
                 [(''file_md5'', compute_md5_bytes content)],
               Log (''Error uploading '' @ full_path @ '': '' @ str_exn e)]\<rparr>))
   \<and> (os_path_relpath (os_getcwd env (world t)) s3_key prefix = Inr rel
      \<and> os_makedirs env (world t) (os_path_dirname (os_path_join restore_dir rel)) = (None, v1)
      \<and> download_file env v1 bucket s3_key (os_path_join restore_dir rel)
            = ((amounts', Some e'), v2)
      \<longrightarrow>
        for_each (restore_object env bucket prefix restore_dir) ((s3_key, sz) # objs) t =
        for_each (restore_object env bucket prefix restore_dir) objs
          (t\<lparr>world := v2,
             bytes_downloaded := bytes_downloaded t + sum_list amounts',
             trace := trace t @
               [Makedirs (os_path_dirname (os_path_join restore_dir rel)),
                DownloadFile bucket s3_key (os_path_join restore_dir rel),
                Log (''Error downloading '' @ s3_key @ '': '' @ str_exn e')]\<rparr>))"
proof (intro conjI impI)
  assume a: "open_rb env (world s) full_path = Inr content
    \<and> check_remote env bucket (s3_key_of prefix rel_path) full_path
          (compute_md5_bytes content) s = (r, s1)
    \<and> r \<noteq> Inr Continue
    \<and> upload_file env (world s1) full_path bucket (s3_key_of prefix rel_path)
          [(''file_md5'', compute_md5_bytes content)] = ((amounts, Some e), w2)"
  then have "S3Sync_backup_file env bucket prefix (full_path, rel_path) s =
               (None, upload env bucket (s3_key_of prefix rel_path) full_path
                        (compute_md5_bytes content) s1)"
    by (cases r) (auto simp: S3Sync_backup_file_def compute_md5_def split: flow.splits)
  with a show "for_each (S3Sync_backup_file env bucket prefix) ((full_path, rel_path) # rest) s =
      for_each (S3Sync_backup_file env bucket prefix) rest
        (s1\<lparr>world := w2,
            bytes_uploaded := bytes_uploaded s1 + sum_list amounts,
            trace := trace s1 @
              [UploadFile full_path bucket (s3_key_of prefix rel_path)
                 [(''file_md5'', compute_md5_bytes content)],
               Log (''Error uploading '' @ full_path @ '': '' @ str_exn e)]\<rparr>)"
    by (simp add: upload_failure)
next
  assume "os_path_relpath (os_getcwd env (world t)) s3_key prefix = Inr rel
      \<and> os_makedirs env (world t) (os_path_dirname (os_path_join restore_dir rel)) = (None, v1)
      \<and> download_file env v1 bucket s3_key (os_path_join restore_dir rel)
            = ((amounts', Some e'), v2)"
  then show "for_each (restore_object env bucket prefix restore_dir) ((s3_key, sz) # objs) t =
        for_each (restore_object env bucket prefix restore_dir) objs
          (t\<lparr>world := v2,
             bytes_downloaded := bytes_downloaded t + sum_list amounts',
             trace := trace t @
               [Makedirs (os_path_dirname (os_path_join restore_dir rel)),
                DownloadFile bucket s3_key (os_path_join restore_dir rel),
                Log (''Error downloading '' @ s3_key @ '': '' @ str_exn e')]\<rparr>)"
    by (simp add: restore_object_def emit_def log_def Let_def)
qed

theorem transfer_failure_is_not_fatal_witness:
  "open_rb mem_env (world (app0 demo_upload_fault)) ''/data/a.txt'' = Inr hello
   \<and> check_remote mem_env ''bucket'' (s3_key_of (backup_prefix ''Default'') ''a.txt'')
         ''/data/a.txt'' (compute_md5_bytes hello) (app0 demo_upload_fault)
       = (Inl (ClientError ''404'' ''Not Found''),
          (app0 demo_upload_fault)\<lparr>trace := [HeadObject ''bucket'' ''backup/Default/a.txt'']\<rparr>)
   \<and> upload_file mem_env demo_upload_fault ''/data/a.txt'' ''bucket''
         (s3_key_of (backup_prefix ''Default'') ''a.txt'')
         [(''file_md5'', compute_md5_bytes hello)]
       = (([], Some (OtherError ''Connection reset'')), demo_upload_fault)
   \<and> for_each (S3Sync_backup_file mem_env ''bucket'' (backup_prefix ''Default''))
         [(''/data/a.txt'', ''a.txt'')] (app0 demo_upload_fault)
       = (None, (app0 demo_upload_fault)\<lparr>trace :=
            [HeadObject ''bucket'' ''backup/Default/a.txt'',
             UploadFile ''/data/a.txt'' ''bucket'' ''backup/Default/a.txt''
               [(''file_md5'', compute_md5_bytes hello)],
             Log ''Error uploading /data/a.txt: Connection reset'']\<rparr>)
   \<and> os_path_relpath (os_getcwd mem_env (world (app0 demo_download_fault)))
         ''backup/Default/x.txt'' (backup_prefix ''Default'') = Inr ''x.txt''
   \<and> os_makedirs mem_env (world (app0 demo_download_fault))
         (os_path_dirname (os_path_join ''/out'' ''x.txt''))
       = (None, demo_download_fault\<lparr>dirs := [''/out'']\<rparr>)
   \<and> download_file mem_env (demo_download_fault\<lparr>dirs := [''/out'']\<rparr>) ''bucket''
         ''backup/Default/x.txt'' (os_path_join ''/out'' ''x.txt'')
       = (([], Some (OtherError ''Connection reset'')), demo_download_fault\<lparr>dirs := [''/out'']\<rparr>)
   \<and> for_each (restore_object mem_env ''bucket'' (backup_prefix ''Default'') ''/out'')
         [(''backup/Default/x.txt'', 12)] (app0 demo_download_fault)
       = (None, (app0 demo_download_fault)\<lparr>
            world := demo_download_fault\<lparr>dirs := [''/out'']\<rparr>,
            trace :=
              [Makedirs ''/out'',
               DownloadFile ''bucket'' ''backup/Default/x.txt'' ''/out/x.txt'',
               Log ''Error downloading backup/Default/x.txt: Connection reset'']\<rparr>)"
proof -
  let ?s = "app0 demo_upload_fault"
  let ?s1 = "(app0 demo_upload_fault)\<lparr>trace := [HeadObject ''bucket'' ''backup/Default/a.txt'']\<rparr>"
  let ?t = "app0 demo_download_fault"
  let ?v = "demo_download_fault\<lparr>dirs := [''/out'']\<rparr>"
  have u1: "open_rb mem_env (world ?s) ''/data/a.txt'' = Inr hello"
    by (simp add: mem_defs demo_defs)
  have u2: "check_remote mem_env ''bucket'' (s3_key_of (backup_prefix ''Default'') ''a.txt'')
              ''/data/a.txt'' (compute_md5_bytes hello) ?s
            = (Inl (ClientError ''404'' ''Not Found''), ?s1)"
    by (simp add: check_remote_def emit_def mem_defs demo_defs demo_key)
  have u3: "(Inl (ClientError ''404'' ''Not Found'') :: exn + flow) \<noteq> Inr Continue"
    by simp
  have u4: "upload_file mem_env (world ?s1) ''/data/a.txt'' ''bucket''
              (s3_key_of (backup_prefix ''Default'') ''a.txt'')
              [(''file_md5'', compute_md5_bytes hello)]
            = (([], Some (OtherError ''Connection reset'')), demo_upload_fault)"
    by (simp add: mem_defs demo_defs demo_key)
  have d1: "os_path_relpath (os_getcwd mem_env (world ?t)) ''backup/Default/x.txt''
              (backup_prefix ''Default'') = Inr ''x.txt''"
    by (simp add: mem_env_def demo_paths)
  have d2: "os_makedirs mem_env (world ?t) (os_path_dirname (os_path_join ''/out'' ''x.txt''))
              = (None, ?v)"
    by (simp add: mem_defs demo_defs demo_paths)
  have d3: "download_file mem_env ?v ''bucket'' ''backup/Default/x.txt''
              (os_path_join ''/out'' ''x.txt'')
            = (([], Some (OtherError ''Connection reset'')), ?v)"
    by (simp add: mem_defs demo_defs demo_paths)
  note T = transfer_failure_is_not_fatal
    [where env = mem_env and s = ?s and full_path = "''/data/a.txt''" and content = hello
       and bucket = "''bucket''" and prefix = "backup_prefix ''Default''"
       and rel_path = "''a.txt''" and r = "Inl (ClientError ''404'' ''Not Found'')"
       and ?s1.0 = ?s1 and amounts = "[]" and e = "OtherError ''Connection reset''"
       and ?w2.0 = demo_upload_fault and rest = "[]"
       and t = ?t and s3_key = "''backup/Default/x.txt''" and rel = "''x.txt''"
       and restore_dir = "''/out''" and ?v1.0 = ?v and amounts' = "[]"
       and e' = "OtherError ''Connection reset''" and ?v2.0 = ?v and sz = 12 and objs = "[]"]
  have c1: "for_each (S3Sync_backup_file mem_env ''bucket'' (backup_prefix ''Default''))
              [(''/data/a.txt'', ''a.txt'')] ?s
            = (None, ?s\<lparr>trace :=
                 [HeadObject ''bucket'' ''backup/Default/a.txt'',
                  UploadFile ''/data/a.txt'' ''bucket'' ''backup/Default/a.txt''
                    [(''file_md5'', compute_md5_bytes hello)],
                  Log ''Error uploading /data/a.txt: Connection reset'']\<rparr>)"
    using T [THEN conjunct1] u1 u2 u3 u4 by (simp add: demo_key) (simp add: app0_def)
  have c2: "for_each (restore_object mem_env ''bucket'' (backup_prefix ''Default'') ''/out'')
              [(''backup/Default/x.txt'', 12)] ?t
            = (None, ?t\<lparr>world := ?v,
                 trace :=
                   [Makedirs ''/out'',
                    DownloadFile ''bucket'' ''backup/Default/x.txt'' ''/out/x.txt'',
                    Log ''Error downloading backup/Default/x.txt: Connection reset'']\<rparr>)"
    using T [THEN conjunct2] d1 d2 d3 by (simp add: demo_paths) (simp add: app0_def)
  have u4': "upload_file mem_env demo_upload_fault ''/data/a.txt'' ''bucket''
              (s3_key_of (backup_prefix ''Default'') ''a.txt'')
              [(''file_md5'', compute_md5_bytes hello)]
            = (([], Some (OtherError ''Connection reset'')), demo_upload_fault)"
    using u4 by (simp add: app0_def)
  from u1 u2 u4' c1 d1 d2 d3 c2 show ?thesis by blast
qed

section \<open>A failed listing ends the restore pass\<close>

lemma drain_pages_fails:
  "drain_pages (map Inr good @ Inl e # later) acc = Inl e"
proof (induction good arbitrary: acc)
  case Nil
  then show ?case by simp
next
  case (Cons p ps)
  then show ?case by (cases p; cases acc) simp_all
qed

lemma local_writes_append: "local_writes (xs @ ys) = local_writes xs @ local_writes ys"
  by (simp add: local_writes_def)

text \<open>
  C5. If a page request of the listing fails, after any number of pages that were fetched,
  the error is logged and the restore pass ends before any download: the events added are
  the listing and the log line, no directory is created, no object is downloaded, and the
  world is as the listing left it. In Ver4.2.py an exception that is not a \<open>ClientError\<close>
  leaves \<open>restore_backup\<close> and is logged by \<open>run_restore\<close>.
\<close>

theorem listing_error_aborts_restore:
  assumes "strip (entry_bucket en) \<noteq> []" and "restore_dir_entry en \<noteq> []"
    and "strip (entry_access en) \<noteq> []" and "strip (entry_secret en) \<noteq> []"
    and "paginate env (world s) (strip (entry_bucket en))
           (backup_prefix (or_default (strip (entry_computer_id en))))
         = (map Inr good @ Inl e # later, w1)"
  shows "S3Sync_restore_backup env en s =
           (None, s\<lparr>world := w1,
                     trace := trace s @
                       [Paginate (strip (entry_bucket en))
                          (backup_prefix (or_default (strip (entry_computer_id en)))),
                        Log (''Error listing objects: '' @ str_exn e)]\<rparr>)
         \<and> Ver42_restore_backup env en s =
             (if is_ClientError e then S3Sync_restore_backup env en s
              else (Some e, s\<lparr>world := w1,
                     trace := trace s @
                       [Paginate (strip (entry_bucket en))
                          (backup_prefix (or_default (strip (entry_computer_id en))))]\<rparr>))
         \<and> run_restore (Ver42_restore_backup env en) s =
             (if is_ClientError e then run_restore (S3Sync_restore_backup env en) s
              else s\<lparr>world := w1,
                     trace := trace s @
                       [Log ''Starting restore...'',
                        Paginate (strip (entry_bucket en))
                          (backup_prefix (or_default (strip (entry_computer_id en)))),
                        Log (''Restore error: '' @ str_exn e),
                        ShowError ''Restore Error'' (str_exn e)]\<rparr>)
         \<and> local_writes (trace (snd (S3Sync_restore_backup env en s))) = local_writes (trace s)
         \<and> local_writes (trace (snd (Ver42_restore_backup env en s))) = local_writes (trace s)"
  using assms
  by (simp add: S3Sync_restore_backup_def Ver42_restore_backup_def gui_restore_backup_def
                get_s3_client_def run_restore_def drain_pages_fails emit_def log_def Let_def
                local_writes_def)

theorem listing_error_aborts_restore_witness:
  "strip (entry_bucket entries0) \<noteq> [] \<and> restore_dir_entry entries0 \<noteq> []
   \<and> strip (entry_access entries0) \<noteq> [] \<and> strip (entry_secret entries0) \<noteq> []
   \<and> paginate mem_env (world (app0 demo_listing_fault)) (strip (entry_bucket entries0))
         (backup_prefix (or_default (strip (entry_computer_id entries0))))
       = (map Inr [Some [(''backup/Default/x.txt'', 12)]]
            @ Inl (ClientError ''500'' ''Internal Error'') # [], demo_listing_fault)
   \<and> S3Sync_restore_backup mem_env entries0 (app0 demo_listing_fault)
       = (None, (app0 demo_listing_fault)\<lparr>trace :=
            [Paginate ''bucket'' ''backup/Default/'',
             Log ''Error listing objects: Internal Error'']\<rparr>)
   \<and> Ver42_restore_backup mem_env entries0 (app0 demo_listing_fault)
       = S3Sync_restore_backup mem_env entries0 (app0 demo_listing_fault)"
proof -
  have h1: "strip (entry_bucket entries0) \<noteq> []" and h2: "restore_dir_entry entries0 \<noteq> []"
    and h3: "strip (entry_access entries0) \<noteq> []" and h4: "strip (entry_secret entries0) \<noteq> []"
    by (simp_all add: entries0_def demo_paths)
  have h5: "paginate mem_env (world (app0 demo_listing_fault)) (strip (entry_bucket entries0))
              (backup_prefix (or_default (strip (entry_computer_id entries0))))
            = (map Inr [Some [(''backup/Default/x.txt'', 12)]]
                 @ Inl (ClientError ''500'' ''Internal Error'') # [], demo_listing_fault)"
    by (simp add: mem_defs demo_defs)
  have e: "strip (entry_bucket entries0) = ''bucket''"
    "backup_prefix (or_default (strip (entry_computer_id entries0))) = ''backup/Default/''"
    by (simp_all add: entries0_def demo_paths)
  have w: "(app0 demo_listing_fault)\<lparr>world := demo_listing_fault\<rparr> = app0 demo_listing_fault"
    by (simp add: app0_def)
  from listing_error_aborts_restore [OF h1 h2 h3 h4 h5]
  show ?thesis
    using h1 h2 h3 h4 h5 by (simp add: e w) (simp add: app0_def)
qed

section \<open>Where a restored object goes\<close>

text \<open>
  The remainder that \<open>os.path.relpath\<close> returns for a key against the prefix is the key
  without the prefix when it is a relative path in normal form and the working directory
  is absolute; otherwise it is that remainder normalised, which names the same file.
\<close>

lemma restore_object_below_prefix:
  assumes "take 1 (os_getcwd env (world s)) = [slash]"
    and "normal_rel rest"
    and "os_makedirs env (world s) (os_path_dirname (os_path_join restore_dir rest)) = (None, w1)"
    and "download_file env w1 bucket (backup_prefix ns @ rest) (os_path_join restore_dir rest)
           = ((amounts, err), w2)"
  shows "restore_object env bucket (backup_prefix ns) restore_dir (backup_prefix ns @ rest, sz) s =
           (None,
            s\<lparr>world := w2,
               bytes_downloaded := bytes_downloaded s + sum_list amounts,
               trace := trace s @
                 [Makedirs (os_path_dirname (os_path_join restore_dir rest)),
                  DownloadFile bucket (backup_prefix ns @ rest) (os_path_join restore_dir rest),
                  Log (case err of
                         None \<Rightarrow> ''Downloaded '' @ backup_prefix ns @ rest @ '' to ''
                                   @ os_path_join restore_dir rest
                       | Some e \<Rightarrow> ''Error downloading '' @ backup_prefix ns @ rest @ '': ''
                                   @ str_exn e)]\<rparr>)"
  using assms relpath_below_prefix [of "os_getcwd env (world s)" rest ns]
  by (cases err) (simp_all add: restore_object_def emit_def log_def Let_def)

lemma restore_object_normalises:
  "drop (length (backup_prefix ''Default'')) ''backup/Default/a//b.txt'' = ''a//b.txt''
   \<and> os_path_join ''/out'' ''a//b.txt'' = ''/out/a//b.txt''
   \<and> trace (snd (restore_object mem_env ''bucket'' (backup_prefix ''Default'') ''/out''
                     (''backup/Default/a//b.txt'', 3) (app0 demo_bucket)))
       = [Makedirs ''/out/a'',
          DownloadFile ''bucket'' ''backup/Default/a//b.txt'' ''/out/a/b.txt'',
          Log ''Downloaded backup/Default/a//b.txt to /out/a/b.txt'']
   \<and> ''/out/a/b.txt'' \<noteq> ''/out/a//b.txt''"
  by (simp add: restore_object_def emit_def log_def Let_def demo_paths mem_defs demo_defs)



section \<open>Cancelling the selective restore\<close>

lemma restore_items_cleared:
  "\<not> running (world s) \<Longrightarrow> restore_items env en bucket restore_dir items s = (None, s)"
  by (cases items) simp_all

lemma restore_items_append:
  "restore_items env en bucket restore_dir (before @ after) s =
     (case restore_items env en bucket restore_dir before s of
        (Some e, s') \<Rightarrow> (Some e, s')
      | (None, s') \<Rightarrow> restore_items env en bucket restore_dir after s')"
proof (induction before arbitrary: s)
  case Nil
  then show ?case by simp
next
  case (Cons item before)
  then show ?case
    by (auto simp: restore_items_cleared split: prod.splits option.splits)
qed

text \<open>
  C9. In the selective restore the flag is read before each item of the selection. When
  it is found cleared, the loop ends and none of the items that remain is transferred;
  this holds too after any part of the selection has been processed. A transfer that is
  under way when the flag is cleared is not interrupted: the call returns, its result is
  logged, and only then does the loop end.
\<close>

theorem cancellation_between_items:
  "(\<not> running (world s) \<longrightarrow>
      restore_items env en bucket restore_dir items s = (None, s))
   \<and> (restore_items env en bucket restore_dir before s = (None, s') \<and> \<not> running (world s')
      \<longrightarrow> restore_items env en bucket restore_dir (before @ after) s = (None, s'))
   \<and> (running (world s)
      \<and> os_path_relpath (os_getcwd env (world s)) s3_key
            (''backup/'' @ or_default (strip (entry_computer_id en))) = Inr rel
      \<and> os_makedirs env (world s) (os_path_dirname (os_path_join restore_dir rel)) = (None, w1)
      \<and> download_file env w1 bucket s3_key (os_path_join restore_dir rel) = ((amounts, err), w2)
      \<and> \<not> running w2
      \<longrightarrow>
        restore_items env en bucket restore_dir ((name, sz, modified, s3_key) # items) s =
          (None,
           s\<lparr>world := w2,
              bytes_downloaded := bytes_downloaded s + sum_list amounts,
              trace := trace s @
                [Makedirs (os_path_dirname (os_path_join restore_dir rel)),
                 DownloadFile bucket s3_key (os_path_join restore_dir rel),
                 Log (case err of
                        None \<Rightarrow> ''Successfully restored: ''
                                  @ os_path_basename (os_path_join restore_dir rel)
                      | Some e \<Rightarrow> ''Failed to restore '' @ s3_key @ '': '' @ str_exn e)]\<rparr>))"
proof (intro conjI impI)
  assume "\<not> running (world s)"
  then show "restore_items env en bucket restore_dir items s = (None, s)"
    by (rule restore_items_cleared)
next
  assume "restore_items env en bucket restore_dir before s = (None, s') \<and> \<not> running (world s')"
  then show "restore_items env en bucket restore_dir (before @ after) s = (None, s')"
    by (simp add: restore_items_append restore_items_cleared)
next
  assume a: "running (world s)
      \<and> os_path_relpath (os_getcwd env (world s)) s3_key
            (''backup/'' @ or_default (strip (entry_computer_id en))) = Inr rel
      \<and> os_makedirs env (world s) (os_path_dirname (os_path_join restore_dir rel)) = (None, w1)
      \<and> download_file env w1 bucket s3_key (os_path_join restore_dir rel) = ((amounts, err), w2)
      \<and> \<not> running w2"
  let ?s' = "s\<lparr>world := w2,
              bytes_downloaded := bytes_downloaded s + sum_list amounts,
              trace := trace s @
                [Makedirs (os_path_dirname (os_path_join restore_dir rel)),
                 DownloadFile bucket s3_key (os_path_join restore_dir rel),
                 Log (case err of
                        None \<Rightarrow> ''Successfully restored: ''
                                  @ os_path_basename (os_path_join restore_dir rel)
                      | Some e \<Rightarrow> ''Failed to restore '' @ s3_key @ '': '' @ str_exn e)]\<rparr>"
  from a have item: "restore_item env en bucket restore_dir (name, sz, modified, s3_key) s
                       = (None, ?s')"
    by (cases err) (simp_all add: restore_item_def emit_def log_def Let_def)
  from a have "\<not> running (world ?s')" by simp
  then have "restore_items env en bucket restore_dir items ?s' = (None, ?s')"
    by (rule restore_items_cleared)
  with a item
  show "restore_items env en bucket restore_dir ((name, sz, modified, s3_key) # items) s
          = (None, ?s')"
    by simp
qed

theorem cancellation_between_items_witness:
  "\<not> running (world (app0 (demo_bucket\<lparr>running := False\<rparr>)))
   \<and> restore_items mem_env entries0 ''bucket'' ''/out''
         [(''x.txt'', 12, ''2024-01-01 00:00:00'', ''backup/Default/x.txt''),
          (''z.txt'', 8, ''2024-01-01 00:00:00'', ''backup/Default/y/z.txt'')]
         (app0 (demo_bucket\<lparr>running := False\<rparr>))
       = (None, app0 (demo_bucket\<lparr>running := False\<rparr>))
   \<and> running (world (app0 demo_pressed))
   \<and> os_path_relpath (os_getcwd mem_env (world (app0 demo_pressed))) ''backup/Default/x.txt''
         (''backup/'' @ or_default (strip (entry_computer_id entries0))) = Inr ''x.txt''
   \<and> os_makedirs mem_env (world (app0 demo_pressed))
         (os_path_dirname (os_path_join ''/out'' ''x.txt''))
       = (None, demo_pressed\<lparr>dirs := [''/out'']\<rparr>)
   \<and> download_file mem_env (demo_pressed\<lparr>dirs := [''/out'']\<rparr>) ''bucket''
         ''backup/Default/x.txt'' (os_path_join ''/out'' ''x.txt'')
       = (([12], None),
          demo_pressed\<lparr>dirs := [''/out''], running := False,
                        files := [(''/out/x.txt'', replicate 12 0x78)]\<rparr>)
   \<and> \<not> running (demo_pressed\<lparr>dirs := [''/out''], running := False,
                                files := [(''/out/x.txt'', replicate 12 0x78)]\<rparr>)
   \<and> restore_items mem_env entries0 ''bucket'' ''/out''
         ([(''x.txt'', 12, ''2024-01-01 00:00:00'', ''backup/Default/x.txt'')]
          @ [(''z.txt'', 8, ''2024-01-01 00:00:00'', ''backup/Default/y/z.txt'')])
         (app0 demo_pressed)
       = (None, (app0 demo_pressed)\<lparr>
            world := demo_pressed\<lparr>dirs := [''/out''], running := False,
                                  files := [(''/out/x.txt'', replicate 12 0x78)]\<rparr>,
            bytes_downloaded := 12,
            trace := [Makedirs ''/out'',
                      DownloadFile ''bucket'' ''backup/Default/x.txt'' ''/out/x.txt'',
                      Log ''Successfully restored: x.txt'']\<rparr>)"
proof -
  let ?q = "app0 (demo_bucket\<lparr>running := False\<rparr>)"
  let ?s = "app0 demo_pressed"
  let ?x = "(''x.txt'', 12 :: nat, ''2024-01-01 00:00:00'', ''backup/Default/x.txt'')"
  let ?z = "(''z.txt'', 8 :: nat, ''2024-01-01 00:00:00'', ''backup/Default/y/z.txt'')"
  let ?w1 = "demo_pressed\<lparr>dirs := [''/out'']\<rparr>"
  let ?w2 = "demo_pressed\<lparr>dirs := [''/out''], running := False,
                          files := [(''/out/x.txt'', replicate 12 0x78)]\<rparr>"
  let ?s' = "?s\<lparr>world := ?w2, bytes_downloaded := 12,
               trace := [Makedirs ''/out'',
                         DownloadFile ''bucket'' ''backup/Default/x.txt'' ''/out/x.txt'',
                         Log ''Successfully restored: x.txt'']\<rparr>"
  have a1: "\<not> running (world ?q)"
    by (simp add: app0_def)
  have a2: "running (world ?s)"
    by (simp add: mem_defs demo_defs)
  have a3: "os_path_relpath (os_getcwd mem_env (world ?s)) ''backup/Default/x.txt''
              (''backup/'' @ or_default (strip (entry_computer_id entries0))) = Inr ''x.txt''"
    by (simp add: mem_env_def entries0_def demo_paths)
  have a4: "os_makedirs mem_env (world ?s) (os_path_dirname (os_path_join ''/out'' ''x.txt''))
              = (None, ?w1)"
    by (simp add: mem_defs demo_defs demo_paths)
  have a5: "download_file mem_env ?w1 ''bucket'' ''backup/Default/x.txt''
              (os_path_join ''/out'' ''x.txt'') = (([12], None), ?w2)"
    by (simp add: mem_defs demo_defs demo_paths)
  have a6: "\<not> running ?w2"
    by simp
  have c0: "restore_items mem_env entries0 ''bucket'' ''/out'' [?x, ?z] ?q = (None, ?q)"
    using cancellation_between_items
            [where s = ?q and env = mem_env and en = entries0 and bucket = "''bucket''"
               and restore_dir = "''/out''" and items = "[?x, ?z]", THEN conjunct1] a1
    by (rule mp)
  have c1: "restore_items mem_env entries0 ''bucket'' ''/out'' [?x] ?s = (None, ?s')"
    using cancellation_between_items
            [where s = ?s and env = mem_env and en = entries0 and bucket = "''bucket''"
               and restore_dir = "''/out''" and items = "[]" and s3_key = "''backup/Default/x.txt''"
               and rel = "''x.txt''" and ?w1.0 = ?w1 and ?w2.0 = ?w2 and amounts = "[12]"
               and err = None and name = "''x.txt''" and sz = 12
               and modified = "''2024-01-01 00:00:00''",
             THEN conjunct2, THEN conjunct2]
          a2 a3 a4 a5 a6
    by (simp add: demo_paths) (simp add: app0_def)
  have c2: "restore_items mem_env entries0 ''bucket'' ''/out'' ([?x] @ [?z]) ?s = (None, ?s')"
    using cancellation_between_items
            [where s = ?s and env = mem_env and en = entries0 and bucket = "''bucket''"
               and restore_dir = "''/out''" and before = "[?x]" and after = "[?z]"
               and s' = ?s',
             THEN conjunct2, THEN conjunct1] c1 a6
    by simp
  from a1 c0 a2 a3 a4 a5 a6 c2 show ?thesis by blast
qed


end
